theory Spec2Isabelle
  imports Main
begin

section \<open>JavaScript values used by the migration script\<close>

text \<open>
  Identifiers and snapshot fields are JavaScript primitives: \<open>null\<close>, a number or a
  string. Strings are lists of code units; only code units below 256 are represented.
\<close>

datatype jsval = Null | Num int | Str string

text \<open>JavaScript truthiness: \<open>null\<close>, \<open>0\<close> and the empty string are falsy.\<close>

fun truthy :: "jsval \<Rightarrow> bool" where
  "truthy Null = False"
| "truthy (Num n) = (n \<noteq> 0)"
| "truthy (Str s) = (s \<noteq> [])"

definition digit_char :: "nat \<Rightarrow> char" where
  "digit_char d = char_of (48 + d)"

function dec_nat :: "nat \<Rightarrow> string" where
  "dec_nat n = (if n < 10 then [digit_char n] else dec_nat (n div 10) @ [digit_char (n mod 10)])"
  by pat_completeness auto
termination
  by (relation "measure id") auto

definition dec_int :: "int \<Rightarrow> string" where
  "dec_int i = (if i < 0 then CHR ''-'' # dec_nat (nat (- i)) else dec_nat (nat i))"

text \<open>\<open>String(v)\<close> for the primitives above (integers in the safe range).\<close>

fun js_String :: "jsval \<Rightarrow> string" where
  "js_String Null = ''null''"
| "js_String (Num n) = dec_int n"
| "js_String (Str s) = s"

type_synonym snapshot = "(string \<times> jsval) list"

text \<open>
  White space of \<open>\s\<close>, \<open>trim()\<close> and \<open>parseInt\<close> among the code units below 256: TAB, LF,
  VT, FF, CR, space and NBSP.
\<close>

definition js_space :: "char \<Rightarrow> bool" where
  "js_space c \<longleftrightarrow> of_char c \<in> {9, 10, 11, 12, 13, 32, 160 :: nat}"

definition is_digit :: "char \<Rightarrow> bool" where
  "is_digit c \<longleftrightarrow> 48 \<le> (of_char c :: nat) \<and> (of_char c :: nat) \<le> 57"

definition digit_val :: "char \<Rightarrow> int" where
  "digit_val c = int (of_char c) - 48"

definition hex_val :: "char \<Rightarrow> int option" where
  "hex_val c =
     (if is_digit c then Some (digit_val c)
      else if 97 \<le> (of_char c :: nat) \<and> (of_char c :: nat) \<le> 102 then Some (int (of_char c) - 87)
      else if 65 \<le> (of_char c :: nat) \<and> (of_char c :: nat) \<le> 70 then Some (int (of_char c) - 55)
      else None)"

text \<open>
  \<open>parseInt(s)\<close> without radix: leading white space and a sign are skipped, a \<open>0x\<close> or
  \<open>0X\<close> prefix selects base 16, and the longest prefix of digits is read; \<open>None\<close> is
  \<open>NaN\<close>.
\<close>

definition parse_digits :: "int \<Rightarrow> (char \<Rightarrow> int option) \<Rightarrow> string \<Rightarrow> int option" where
  "parse_digits radix val s =
     (let ds = takeWhile (\<lambda>c. val c \<noteq> None) s
      in if ds = [] then None
         else Some (foldl (\<lambda>acc c. acc * radix + the (val c)) 0 ds))"

definition parse_unsigned :: "string \<Rightarrow> int option" where
  "parse_unsigned s =
     (case s of
        c0 # x # rest \<Rightarrow>
          if c0 = CHR ''0'' \<and> (x = CHR ''x'' \<or> x = CHR ''X'')
          then parse_digits 16 hex_val rest
          else parse_digits 10 (\<lambda>c. if is_digit c then Some (digit_val c) else None) s
      | _ \<Rightarrow> parse_digits 10 (\<lambda>c. if is_digit c then Some (digit_val c) else None) s)"

definition parseInt :: "string \<Rightarrow> int option" where
  "parseInt s =
     (case dropWhile js_space s of
        [] \<Rightarrow> None
      | c # rest \<Rightarrow>
          if c = CHR ''-'' then map_option uminus (parse_unsigned rest)
          else if c = CHR ''+'' then parse_unsigned rest
          else parse_unsigned (c # rest))"

section \<open>Document tree\<close>

text \<open>
  A mark is \<open>{type}\<close> or, for a link, \<open>{type: 'link', attrs: {href, target}}\<close>.
\<close>

datatype mark = Mark string | Link string string

text \<open>
  The \<open>attrs\<close> objects the converter builds: \<open>{textAlign}\<close> of a paragraph,
  \<open>{textAlign, id: null, level}\<close> of a heading, \<open>{language: null}\<close> of a code block and
  the eight fields of an image.
\<close>

record image_attrs =
  src :: string
  alt :: string
  subCaption :: "string option"
  withCaption :: bool
  fixed :: bool
  captionDisplayOption :: string
  width :: "int option"
  height :: "int option"

datatype attrs =
    ParagraphAttrs string
  | HeadingAttrs string int
  | CodeBlockAttrs
  | ImageAttrs image_attrs

text \<open>
  A node is a text run \<open>{type: 'text', text, marks}\<close> (\<open>marks\<close> is absent exactly when the
  list is empty) or a node \<open>{type, attrs, content}\<close>, where \<open>attrs\<close> and \<open>content\<close> may be
  absent.
\<close>

datatype node =
    TextRun string "mark list"
  | Block string "attrs option" "node list option"

section \<open>Migration tracking store\<close>

text \<open>
  Table \<open>migration_data\<close>: \<open>id SERIAL\<close>, \<open>batch_id\<close>, \<open>table_name\<close>, \<open>old_id\<close>,
  \<open>new_id\<close> (nullable), \<open>status\<close>, \<open>error_message\<close> (nullable), \<open>source_data\<close>
  (nullable), \<open>created_at\<close>, \<open>updated_at\<close>, with \<open>UNIQUE(table_name, old_id, batch_id)\<close>.
  Timestamps are natural numbers.
\<close>

record migration_data =
  md_id :: nat
  batch_id :: nat
  table_name :: string
  old_id :: string
  new_id :: "string option"
  status :: string
  error_message :: "string option"
  source_data :: "snapshot option"
  created_at :: nat
  updated_at :: nat

text \<open>Table \<open>migration_batch\<close>.\<close>

record migration_batch =
  mb_id :: nat
  batch_name :: string
  description :: string
  mb_status :: string
  completed_at :: "nat option"
  mb_error_message :: "string option"

text \<open>
  The tracking database: both tables in storage order and the two \<open>SERIAL\<close> sequences.
\<close>

record tracking =
  batches :: "migration_batch list"
  data :: "migration_data list"
  batch_seq :: nat
  data_seq :: nat

definition same_key :: "string \<Rightarrow> string \<Rightarrow> nat \<Rightarrow> migration_data \<Rightarrow> bool" where
  "same_key tableName oldId batchId r \<longleftrightarrow>
     table_name r = tableName \<and> old_id r = oldId \<and> batch_id r = batchId"

text \<open>
  \<open>trackMigration\<close>: \<open>INSERT ... ON CONFLICT (table_name, old_id, batch_id) DO UPDATE SET
  new_id = $4, status = $5, error_message = $7, updated_at = NOW()\<close>. The sequence is
  advanced by every \<open>INSERT\<close> attempt, also one that ends in the conflict update.
\<close>

definition conflict_update ::
  "string option \<Rightarrow> string \<Rightarrow> string option \<Rightarrow> nat \<Rightarrow> migration_data \<Rightarrow> migration_data" where
  "conflict_update nid st errorMessage now r =
     r\<lparr>new_id := nid, status := st, error_message := errorMessage, updated_at := now\<rparr>"

definition trackMigration ::
  "nat \<Rightarrow> nat \<Rightarrow> string \<Rightarrow> string \<Rightarrow> jsval \<Rightarrow> string \<Rightarrow> snapshot option \<Rightarrow> string option
    \<Rightarrow> tracking \<Rightarrow> tracking" where
  "trackMigration now batchId tableName oldId newId st sourceData errorMessage db =
     (let nid = (if truthy newId then Some (js_String newId) else None) in
      if list_ex (same_key tableName oldId batchId) (data db)
      then db\<lparr>data := map (\<lambda>r. if same_key tableName oldId batchId r
                                 then conflict_update nid st errorMessage now r else r) (data db),
              data_seq := Suc (data_seq db)\<rparr>
      else db\<lparr>data := data db @
                 [\<lparr>md_id = data_seq db, batch_id = batchId, table_name = tableName,
                   old_id = oldId, new_id = nid, status = st, error_message = errorMessage,
                   source_data = sourceData, created_at = now, updated_at = now\<rparr>],
              data_seq := Suc (data_seq db)\<rparr>)"

text \<open>
  The success rows of one entity, \<open>WHERE table_name = $1 AND old_id = $2 AND
  status = 'success'\<close>, in storage order.
\<close>

definition success_rows :: "string \<Rightarrow> string \<Rightarrow> tracking \<Rightarrow> migration_data list" where
  "success_rows tableName oldId db =
     filter (\<lambda>r. table_name r = tableName \<and> old_id r = oldId \<and> status r = ''success'') (data db)"

text \<open>
  \<open>ORDER BY created_at DESC LIMIT 1\<close>: a row of greatest \<open>created_at\<close>; among equal
  timestamps the earliest stored one is taken.
\<close>

fun newest :: "migration_data list \<Rightarrow> migration_data option" where
  "newest [] = None"
| "newest (r # rs) =
     (case newest rs of None \<Rightarrow> Some r
      | Some r' \<Rightarrow> if created_at r' > created_at r then Some r' else Some r)"

text \<open>\<open>getMigratedId\<close>: \<open>result.rows[0]?.new_id || null\<close>.\<close>

definition getMigratedId :: "string \<Rightarrow> string \<Rightarrow> tracking \<Rightarrow> string option" where
  "getMigratedId tableName oldId db =
     (case newest (success_rows tableName oldId db) of
        None \<Rightarrow> None
      | Some r \<Rightarrow> (case new_id r of None \<Rightarrow> None
                   | Some i \<Rightarrow> if i = [] then None else Some i))"

text \<open>\<open>isAlreadyMigrated\<close>: \<open>result.rows.length > 0\<close>.\<close>

definition isAlreadyMigrated :: "string \<Rightarrow> string \<Rightarrow> tracking \<Rightarrow> bool" where
  "isAlreadyMigrated tableName oldId db \<longleftrightarrow> success_rows tableName oldId db \<noteq> []"

section \<open>Configuration, environment and world state\<close>

text \<open>The fields of \<open>CONFIG\<close> that the migration reads.\<close>

record config =
  WP_BASE_URL :: string
  DIRECTUS_TOKEN :: "string option"
  DIRECTUS_FOLDER_ID :: "string option"
  AUTHOR_ID :: "string option"
  AUTHOR_NAME :: "string option"
  POST_TEMPLATE_ID :: "int option"
  COLLECTION_TEMPLATE_ID :: "int option"

text \<open>
  One call of the asset-import endpoint \<open>POST /files/import\<close> with its outcome: the
  error message of the failed request, or the \<open>id\<close> of the created file.
\<close>

record import_call =
  ic_url :: string
  ic_folder :: "string option"
  ic_title :: string
  ic_outcome :: "string + string"

text \<open>
  \<open>urlToUuidCache\<close> is a JavaScript \<open>Map\<close>: an association list in insertion order,
  where \<open>set\<close> on a present key replaces the value in place.
\<close>

type_synonym url_cache = "(string \<times> string) list"

fun cache_set :: "string \<Rightarrow> string \<Rightarrow> url_cache \<Rightarrow> url_cache" where
  "cache_set k v [] = [(k, v)]"
| "cache_set k v (p # ps) = (if fst p = k then (k, v) # ps else p # cache_set k v ps)"

definition cache_has :: "string \<Rightarrow> url_cache \<Rightarrow> bool" where
  "cache_has k c \<longleftrightarrow> k \<in> fst ` set c"

definition cache_get :: "string \<Rightarrow> url_cache \<Rightarrow> string option" where
  "cache_get k c = map_of c k"

text \<open>
  A row of the target database maps column names to values. The \<open>content\<close> column of
  \<open>post_translations\<close> holds the envelope \<open>{json, html, lastSaved}\<close>; \<open>CDate s\<close> is
  the instant \<open>new Date(s)\<close> and \<open>CTime n\<close> the instant at which the clock shows \<open>n\<close>.
\<close>

datatype cell =
    CNull | CInt int | CText string | CBool bool
  | CContent "node option" string nat
  | CDate string | CTime nat

type_synonym row = "(string \<times> cell) list"

text \<open>
  The state the migration works on: the tracking database, the tables of the target
  database by name with the number of statements sent to it so far, the process-wide
  cache, the log of calls made to the import endpoint, and the clock read by \<open>NOW()\<close>
  and \<open>Date.now()\<close>, which advances with every tracking write.
\<close>

record world =
  migrationDb :: tracking
  db :: "string \<Rightarrow> row list"
  db_stmts :: nat
  urlToUuidCache :: url_cache
  import_log :: "import_call list"
  clock :: nat

text \<open>
  The import endpoint is a collaborator: \<open>remote n url\<close> is what the \<open>n\<close>-th call
  made in this world answers for \<open>url\<close>.
\<close>

type_synonym remote = "nat \<Rightarrow> string \<Rightarrow> string + string"

definition track ::
  "nat \<Rightarrow> string \<Rightarrow> string \<Rightarrow> jsval \<Rightarrow> string \<Rightarrow> snapshot option \<Rightarrow> string option
    \<Rightarrow> world \<Rightarrow> world" where
  "track batchId tableName oldId newId st sourceData errorMessage w =
     w\<lparr>migrationDb :=
         trackMigration (clock w) batchId tableName oldId newId st sourceData errorMessage
           (migrationDb w),
       clock := Suc (clock w)\<rparr>"

section \<open>Media importer\<close>

text \<open>\<open>path.basename\<close> (POSIX): trailing slashes dropped, then the last segment.\<close>

definition basename :: "string \<Rightarrow> string" where
  "basename p =
     (let q = rev (dropWhile (\<lambda>c. c = CHR ''/'') (rev p))
      in rev (takeWhile (\<lambda>c. c \<noteq> CHR ''/'') (rev q)))"

text \<open>
  \<open>importFileToDirectus\<close>: the request carries \<open>title || path.basename(url)\<close>; a failed
  request is rethrown as \<open>Import failed: <message> (url: <url>)\<close>.
\<close>

definition importFileToDirectus ::
  "remote \<Rightarrow> config \<Rightarrow> string \<Rightarrow> string \<Rightarrow> world \<Rightarrow> (string + string) \<times> world" where
  "importFileToDirectus rem cfg url title w =
     (let out = rem (length (import_log w)) url;
          call = \<lparr>ic_url = url, ic_folder = DIRECTUS_FOLDER_ID cfg,
                  ic_title = (if title \<noteq> [] then title else basename url),
                  ic_outcome = out\<rparr>;
          w' = w\<lparr>import_log := import_log w @ [call]\<rparr>
      in case out of
           Inl errMsg \<Rightarrow> (Inl (''Import failed: '' @ errMsg @ '' (url: '' @ url @ '')''), w')
         | Inr fid \<Rightarrow> (Inr fid, w'))"

text \<open>
  \<open>importMediaUrl\<close>: cache, then tracking store, then the import call; the outcome is
  tracked before the function returns. The result is the asset identifier or \<open>null\<close>.
\<close>

definition importMediaUrl ::
  "remote \<Rightarrow> config \<Rightarrow> nat \<Rightarrow> string \<Rightarrow> world \<Rightarrow> string option \<times> world" where
  "importMediaUrl rem cfg batchId url w =
     (if cache_has url (urlToUuidCache w) then (cache_get url (urlToUuidCache w), w)
      else case getMigratedId ''directus_files'' url (migrationDb w) of
        Some existingUuid \<Rightarrow>
          (Some existingUuid, w\<lparr>urlToUuidCache := cache_set url existingUuid (urlToUuidCache w)\<rparr>)
      | None \<Rightarrow>
          (let filename = basename (takeWhile (\<lambda>c. c \<noteq> CHR ''?'') url) in
           case importFileToDirectus rem cfg url filename w of
             (Inr fid, w1) \<Rightarrow>
               (let w2 = track batchId ''directus_files'' url (Str fid) ''success''
                           (Some [(''url'', Str url)]) None w1
                in (Some fid, w2\<lparr>urlToUuidCache := cache_set url fid (urlToUuidCache w2)\<rparr>))
           | (Inl msg, w1) \<Rightarrow>
               (None, track batchId ''directus_files'' url Null ''failed''
                        (Some [(''url'', Str url)]) (Some msg) w1)))"


text \<open>The calls of the log that imported \<open>url\<close> successfully.\<close>

definition imported :: "string \<Rightarrow> import_call list \<Rightarrow> import_call list" where
  "imported url cs = filter (\<lambda>c. ic_url c = url \<and> \<not> isl (ic_outcome c)) cs"



section \<open>Batch rollback\<close>

text \<open>
  The target database is a collaborator: \<open>orc n\<close> is the error with which it rejects the
  \<open>n\<close>-th statement sent to it (a violated constraint, a missing table), if it does.
\<close>

type_synonym db_oracle = "nat \<Rightarrow> string option"

definition int4 :: "int \<Rightarrow> bool" where
  "int4 i \<longleftrightarrow> - 2147483648 \<le> i \<and> i \<le> 2147483647"














section \<open>URL rewriter\<close>

text \<open>\<open>s.startsWith(p)\<close> and \<open>s.includes(p)\<close>.\<close>

fun startsWith :: "string \<Rightarrow> string \<Rightarrow> bool" where
  "startsWith s [] = True"
| "startsWith [] (p # ps) = False"
| "startsWith (x # xs) (p # ps) = (x = p \<and> startsWith xs ps)"

fun js_includes :: "string \<Rightarrow> string \<Rightarrow> bool" where
  "js_includes [] p = (p = [])"
| "js_includes (x # xs) p = (startsWith (x # xs) p \<or> js_includes xs p)"

text \<open>
  \<open>processNode\<close>: an image node with a non-empty \<open>src\<close> gets \<open>/assets/<uuid>\<close> when the
  map has a truthy entry for the URL looked up; the children of every node are processed
  in turn.
\<close>

fun processNode :: "string \<Rightarrow> url_cache \<Rightarrow> node \<Rightarrow> node" where
  "processNode base urlToUuidMap (TextRun t ms) = TextRun t ms"
| "processNode base urlToUuidMap (Block ty at ct) =
     Block ty
       (case at of
          Some (ImageAttrs a) \<Rightarrow>
            if ty = ''image'' \<and> src a \<noteq> [] then
              (if startsWith (src a) ''/wp-content/uploads/'' then
                 (case cache_get (base @ src a) urlToUuidMap of
                    Some uuid \<Rightarrow>
                      if uuid \<noteq> [] then Some (ImageAttrs (a\<lparr>src := ''/assets/'' @ uuid\<rparr>)) else at
                  | None \<Rightarrow> at)
               else if js_includes (src a) ''/wp-content/uploads/'' then
                 (case cache_get (src a) urlToUuidMap of
                    Some uuid \<Rightarrow>
                      if uuid \<noteq> [] then Some (ImageAttrs (a\<lparr>src := ''/assets/'' @ uuid\<rparr>)) else at
                  | None \<Rightarrow> at)
               else at)
            else at
        | _ \<Rightarrow> at)
       (case ct of None \<Rightarrow> None | Some ns \<Rightarrow> Some (map (processNode base urlToUuidMap) ns))"

text \<open>
  \<open>replaceUrlsInTipTapJson\<close>: \<open>null\<close> and a document without \<open>content\<close> are returned as
  they are; otherwise the content nodes are processed.
\<close>

definition replaceUrlsInTipTapJson :: "string \<Rightarrow> node option \<Rightarrow> url_cache \<Rightarrow> node option" where
  "replaceUrlsInTipTapJson base tiptapJson urlToUuidMap =
     (case tiptapJson of
        Some (Block ty at (Some content)) \<Rightarrow>
          Some (Block ty at (Some (map (processNode base urlToUuidMap) content)))
      | _ \<Rightarrow> tiptapJson)"

text \<open>
  For stating what the rewriter does: the \<open>src\<close> values of the image nodes of a tree in
  document order, and the tree with these values blanked.
\<close>

fun image_srcs :: "node \<Rightarrow> string list" where
  "image_srcs (TextRun t ms) = []"
| "image_srcs (Block ty at ct) =
     (case at of Some (ImageAttrs a) \<Rightarrow> if ty = ''image'' then [src a] else [] | _ \<Rightarrow> []) @
     (case ct of None \<Rightarrow> [] | Some ns \<Rightarrow> concat (map image_srcs ns))"

fun blank_srcs :: "node \<Rightarrow> node" where
  "blank_srcs (TextRun t ms) = TextRun t ms"
| "blank_srcs (Block ty at ct) =
     Block ty
       (case at of
          Some (ImageAttrs a) \<Rightarrow> if ty = ''image'' then Some (ImageAttrs (a\<lparr>src := []\<rparr>)) else at
        | _ \<Rightarrow> at)
       (case ct of None \<Rightarrow> None | Some ns \<Rightarrow> Some (map blank_srcs ns))"

text \<open>The new \<open>src\<close> of an image node, as a function of the old one.\<close>

definition rewritten_src :: "string \<Rightarrow> url_cache \<Rightarrow> string \<Rightarrow> string" where
  "rewritten_src base urlToUuidMap s =
     (if startsWith s ''/wp-content/uploads/'' then
        (case cache_get (base @ s) urlToUuidMap of
           Some uuid \<Rightarrow> if uuid \<noteq> [] then ''/assets/'' @ uuid else s
         | None \<Rightarrow> s)
      else if js_includes s ''/wp-content/uploads/'' then
        (case cache_get s urlToUuidMap of
           Some uuid \<Rightarrow> if uuid \<noteq> [] then ''/assets/'' @ uuid else s
         | None \<Rightarrow> s)
      else s)"

section \<open>CSV streaming reader\<close>



text \<open>
  A record is a JavaScript object with string values: an association list in insertion
  order. \<open>record[h] = v\<close> adds or replaces the property, except that assigning a string
  to \<open>__proto__\<close> leaves an ordinary object as it is.
\<close>

type_synonym csv_record = "(string \<times> string) list"


definition obj_get :: "csv_record \<Rightarrow> string \<Rightarrow> string option" where
  "obj_get r h = map_of r h"


text \<open>The options \<open>{postType = 'post', postStatus = null, limit = 0}\<close> and the reader's variables.\<close>

record csv_options =
  postType :: string
  postStatus :: "string option"
  limit :: int






text \<open>
  For stating what the reader does with a row that spans several physical lines: the
  text accumulated from the first line and its continuation lines, and the condition
  that the quote count stays odd after each of them.
\<close>

definition joined :: "string \<Rightarrow> string list \<Rightarrow> string" where
  "joined first ls = foldl (\<lambda>field line. field @ [CHR 0x0A] @ line) first ls"




section \<open>Regular expressions of the script\<close>

text \<open>
  The regular expressions of the script quantify single-character atoms only (apart from
  \<open>?\<close> on a group), so the syntax below has the quantifiers on atoms. Items of a character
  class are characters, ranges, \<open>\s\<close> and \<open>\d\<close>.
\<close>

datatype cc = C char | Rng char char | WS | DIGIT

datatype atom = AChr char | AAny | ACls "cc list" | ANCls "cc list"

text \<open>
  \<open>GEnd n s\<close> does not come from the syntax: the matcher leaves it behind a group to
  record, when the group is done, what it consumed of the input \<open>s\<close> it started at.
\<close>

datatype re =
    One atom
  | Lit string
  | Star atom
  | Plus atom
  | Lazy atom
  | Opt re
  | Alt re re
  | Seq re re
  | Grp nat re
  | Ref nat
  | GEnd nat string

text \<open>
  Case-insensitive comparison canonicalises with \<open>toUpperCase\<close>; a code unit from 128
  on never becomes one below, and the patterns hold ASCII only, so the letters
  \<open>a\<close> to \<open>z\<close> are the code units that matter.
\<close>

definition canon :: "bool \<Rightarrow> char \<Rightarrow> nat" where
  "canon ci c =
     (if ci \<and> 97 \<le> (of_char c :: nat) \<and> (of_char c :: nat) \<le> 122 then of_char c - 32
      else of_char c)"

fun cc_match :: "bool \<Rightarrow> cc \<Rightarrow> char \<Rightarrow> bool" where
  "cc_match ci (C p) x = (canon ci p = canon ci x)"
| "cc_match ci (Rng lo hi) x =
     ((of_char lo \<le> (of_char x :: nat) \<and> (of_char x :: nat) \<le> of_char hi) \<or>
      (ci \<and> (\<exists>y\<in>set (map char_of [of_char lo ..< Suc (of_char hi :: nat)]). canon ci y = canon ci x)))"
| "cc_match ci WS x = js_space x"
| "cc_match ci DIGIT x = is_digit x"

fun amatch :: "bool \<Rightarrow> atom \<Rightarrow> char \<Rightarrow> bool" where
  "amatch ci (AChr p) x = (canon ci p = canon ci x)"
| "amatch ci AAny x = True"
| "amatch ci (ACls items) x = list_ex (\<lambda>i. cc_match ci i x) items"
| "amatch ci (ANCls items) x = (\<not> list_ex (\<lambda>i. cc_match ci i x) items)"

type_synonym caps = "(nat \<times> string) list"

fun weight :: "re \<Rightarrow> nat" where
  "weight (One a) = 1"
| "weight (Lit p) = 1"
| "weight (Star a) = 1"
| "weight (Plus a) = 3"
| "weight (Lazy a) = 1"
| "weight (Opt r) = Suc (weight r)"
| "weight (Alt r1 r2) = Suc (weight r1 + weight r2)"
| "weight (Seq r1 r2) = Suc (weight r1 + weight r2)"
| "weight (Grp n r) = Suc (Suc (weight r))"
| "weight (Ref n) = 1"
| "weight (GEnd n s) = 1"

text \<open>
  The backtracking matcher: \<open>bt ci k s c\<close> matches the items of \<open>k\<close> in sequence at the
  start of \<open>s\<close>, with the captures \<open>c\<close> so far, and returns the rest of the input and
  the captures of the first way to match that backtracking finds. A greedy quantifier
  tries the longer match first, a lazy one the shorter; an alternative and an optional
  item try the left (the present) case first.
\<close>

function bt :: "bool \<Rightarrow> re list \<Rightarrow> string \<Rightarrow> caps \<Rightarrow> (string \<times> caps) option" where
  "bt ci [] s c = Some (s, c)"
| "bt ci (One a # k) s c =
     (case s of [] \<Rightarrow> None | x # xs \<Rightarrow> if amatch ci a x then bt ci k xs c else None)"
| "bt ci (Lit [] # k) s c = bt ci k s c"
| "bt ci (Lit (p # ps) # k) s c =
     (case s of [] \<Rightarrow> None
      | x # xs \<Rightarrow> if canon ci p = canon ci x then bt ci (Lit ps # k) xs c else None)"
| "bt ci (Star a # k) s c =
     (case s of
        [] \<Rightarrow> bt ci k s c
      | x # xs \<Rightarrow>
          if amatch ci a x then
            (case bt ci (Star a # k) xs c of Some r \<Rightarrow> Some r | None \<Rightarrow> bt ci k s c)
          else bt ci k s c)"
| "bt ci (Plus a # k) s c = bt ci (One a # Star a # k) s c"
| "bt ci (Lazy a # k) s c =
     (case bt ci k s c of
        Some r \<Rightarrow> Some r
      | None \<Rightarrow>
          (case s of [] \<Rightarrow> None
           | x # xs \<Rightarrow> if amatch ci a x then bt ci (Lazy a # k) xs c else None))"
| "bt ci (Opt r # k) s c =
     (case bt ci (r # k) s c of Some x \<Rightarrow> Some x | None \<Rightarrow> bt ci k s c)"
| "bt ci (Alt r1 r2 # k) s c =
     (case bt ci (r1 # k) s c of Some x \<Rightarrow> Some x | None \<Rightarrow> bt ci (r2 # k) s c)"
| "bt ci (Seq r1 r2 # k) s c = bt ci (r1 # r2 # k) s c"
| "bt ci (Grp n r # k) s c = bt ci (r # GEnd n s # k) s c"
| "bt ci (GEnd n s0 # k) s c = bt ci k s ((n, take (length s0 - length s) s0) # c)"
| "bt ci (Ref n # k) s c =
     (case map_of c n of
        None \<Rightarrow> bt ci k s c
      | Some t \<Rightarrow>
          if length t \<le> length s \<and> map (canon ci) t = map (canon ci) (take (length t) s)
          then bt ci k (drop (length t) s) c else None)"
  by pat_completeness auto
termination
  by (relation "measures [\<lambda>(ci, k, s, c). length s, \<lambda>(ci, k, s, c). sum_list (map weight k)]")
     auto

declare bt.simps [simp del]

text \<open>
  One match, as \<open>exec\<close> finds it from a start position on: the text skipped before the
  match, the matched text, the captures and the rest of the input.
\<close>

record rmatch =
  skipped :: string
  matched :: string
  groups :: caps
  after :: string

fun search :: "bool \<Rightarrow> re \<Rightarrow> string \<Rightarrow> string \<Rightarrow> rmatch option" where
  "search ci r pre [] =
     (case bt ci [r] [] [] of
        Some (rest, c) \<Rightarrow> Some \<lparr>skipped = pre, matched = [], groups = c, after = []\<rparr>
      | None \<Rightarrow> None)"
| "search ci r pre (x # xs) =
     (case bt ci [r] (x # xs) [] of
        Some (rest, c) \<Rightarrow>
          Some \<lparr>skipped = pre, matched = take (length (x # xs) - length rest) (x # xs),
                groups = c, after = rest\<rparr>
      | None \<Rightarrow> search ci r (pre @ [x]) xs)"

definition exec :: "bool \<Rightarrow> re \<Rightarrow> string \<Rightarrow> rmatch option" where
  "exec ci r s = search ci r [] s"

definition group :: "rmatch \<Rightarrow> nat \<Rightarrow> string option" where
  "group m n = map_of (groups m) n"

text \<open>
  All matches of a global expression, each searched from the end of the one before, and
  the text after the last one. No expression of the script matches the empty string
  (after such a match an \<open>exec\<close> loop would not advance); the scan ends there.
\<close>

function matchAll :: "bool \<Rightarrow> re \<Rightarrow> string \<Rightarrow> rmatch list \<times> string" where
  "matchAll ci r s =
     (case search ci r [] s of
        None \<Rightarrow> ([], s)
      | Some m \<Rightarrow>
          if length (after m) < length s then
            (case matchAll ci r (after m) of (ms, t) \<Rightarrow> (m # ms, t))
          else ([m], after m))"
  by pat_completeness auto
termination
  by (relation "measure (\<lambda>(ci, r, s). length s)") auto

declare matchAll.simps [simp del]

text \<open>How many times an expression sets capture group \<open>n\<close>.\<close>

fun ndefs :: "nat \<Rightarrow> re \<Rightarrow> nat" where
  "ndefs n (Opt r) = ndefs n r"
| "ndefs n (Alt r1 r2) = ndefs n r1 + ndefs n r2"
| "ndefs n (Seq r1 r2) = ndefs n r1 + ndefs n r2"
| "ndefs n (Grp n' r) = (if n' = n then 1 else 0) + ndefs n r"
| "ndefs n (GEnd n' s) = (if n' = n then 1 else 0)"
| "ndefs n r = 0"

text \<open>The least number of characters a match of an expression consumes.\<close>

fun minlen :: "re \<Rightarrow> nat" where
  "minlen (One a) = 1"
| "minlen (Lit p) = length p"
| "minlen (Plus a) = 1"
| "minlen (Alt r1 r2) = min (minlen r1) (minlen r2)"
| "minlen (Seq r1 r2) = minlen r1 + minlen r2"
| "minlen (Grp n r) = minlen r"
| "minlen r = 0"

text \<open>
  Every group-end marker of an expression was set at an input of at most \<open>N\<close>
  characters.
\<close>

fun gbound :: "nat \<Rightarrow> re \<Rightarrow> bool" where
  "gbound N (GEnd n s0) = (length s0 \<le> N)"
| "gbound N (Opt r) = gbound N r"
| "gbound N (Alt r1 r2) = (gbound N r1 \<and> gbound N r2)"
| "gbound N (Seq r1 r2) = (gbound N r1 \<and> gbound N r2)"
| "gbound N (Grp n r) = gbound N r"
| "gbound N r = True"

section \<open>Content extractor\<close>

fun seqs :: "re list \<Rightarrow> re" where
  "seqs [] = Lit []"
| "seqs [r] = r"
| "seqs (r # rs) = Seq r (seqs rs)"

fun alts :: "re list \<Rightarrow> re" where
  "alts [] = Lit []"
| "alts [r] = r"
| "alts (r # rs) = Alt r (alts rs)"

definition dq :: char where
  "dq = CHR 0x22"

definition sq :: char where
  "sq = CHR 0x27"

text \<open>\<open>["']\<close> and \<open>[^"']\<close>.\<close>

definition quote :: atom where
  "quote = ACls [C dq, C sq]"

definition nonquote :: atom where
  "nonquote = ANCls [C dq, C sq]"

text \<open>\<open>s.replace(/""/g, '"')\<close>: a global replacement by a constant string.\<close>

definition replaceAll :: "bool \<Rightarrow> re \<Rightarrow> string \<Rightarrow> string \<Rightarrow> string" where
  "replaceAll ci r new s =
     (case matchAll ci r s of (ms, t) \<Rightarrow> concat (map (\<lambda>m. skipped m @ new) ms) @ t)"

definition undouble :: "string \<Rightarrow> string" where
  "undouble s = replaceAll False (Lit [dq, dq]) [dq] s"

text \<open>The first capture group of every match: \<open>while ((match = p.exec(s)) !== null) ... match[1]\<close>.\<close>

definition captures1 :: "re \<Rightarrow> string \<Rightarrow> string list" where
  "captures1 r s = map (\<lambda>m. case group m 1 of None \<Rightarrow> [] | Some g \<Rightarrow> g) (fst (matchAll True r s))"

text \<open>\<open>https?:\/\/(?:www\.)?btaskee\.com\/wp-content\/uploads\/[^"']+\<close>\<close>

definition fullUrl :: re where
  "fullUrl = seqs [Lit ''http'', Opt (Lit ''s''), Lit ''://'', Opt (Lit ''www.''),
                   Lit ''btaskee.com/wp-content/uploads/'', Plus nonquote]"

definition srcPattern :: re where
  "srcPattern = seqs [Lit ''src='', One quote, Grp 1 fullUrl, One quote]"

definition relativePattern :: re where
  "relativePattern =
     seqs [Lit ''src='', One quote, Grp 1 (seqs [Lit ''/wp-content/uploads/'', Plus nonquote]),
           One quote]"

definition localhostPattern :: re where
  "localhostPattern =
     seqs [Lit ''src='', One quote, Lit ''http://localhost:'', Plus (ACls [DIGIT]),
           Lit ''/wp-content/uploads/'', Grp 1 (Plus nonquote), One quote]"

definition hrefPattern :: re where
  "hrefPattern = seqs [Lit ''href='', One quote, Grp 1 fullUrl, One quote]"

text \<open>\<open>\[caption[^\]]*\]([\s\S]*?)\[\/caption\]\<close>\<close>

definition captionPattern :: re where
  "captionPattern =
     seqs [Lit ''[caption'', Star (ANCls [C CHR '']'']), Lit '']'', Grp 1 (Lazy AAny),
           Lit ''[/caption]'']"

definition directPathPattern :: re where
  "directPathPattern =
     seqs [One quote,
           Grp 1 (seqs [Lit ''/wp-content/uploads/'',
                        Plus (ANCls [WS, C dq, C sq, C CHR ''<'', C CHR ''>'']), Lit ''.'',
                        alts [Lit ''jpg'', Lit ''jpeg'', Lit ''png'', Lit ''gif'', Lit ''webp'',
                              Lit ''svg'', Lit ''pdf'', Lit ''doc'', Lit ''docx'']]),
           One quote]"

text \<open>
  \<open>urls\<close> is a \<open>Set\<close>: a list without duplicates in insertion order; \<open>add\<close> of a
  member changes nothing.
\<close>

definition set_add :: "string list \<Rightarrow> string \<Rightarrow> string list" where
  "set_add urls u = (if u \<in> set urls then urls else urls @ [u])"

text \<open>
  The URLs that the passes of \<open>extractMediaUrls\<close> add, in the order in which they add
  them: pattern 1 to 4 over the whole content, then per caption block the relative and
  the full sources inside it, then pattern 6.
\<close>

definition found_urls :: "string \<Rightarrow> string \<Rightarrow> string list" where
  "found_urls base cleanContent =
     captures1 srcPattern cleanContent @
     map (\<lambda>p. base @ p) (captures1 relativePattern cleanContent) @
     map (\<lambda>p. base @ ''/wp-content/uploads/'' @ p) (captures1 localhostPattern cleanContent) @
     captures1 hrefPattern cleanContent @
     concat (map (\<lambda>captionContent.
                    map (\<lambda>p. base @ p) (captures1 relativePattern captionContent) @
                    captures1 srcPattern captionContent)
              (captures1 captionPattern cleanContent)) @
     map (\<lambda>p. base @ p) (captures1 directPathPattern cleanContent)"

definition extractMediaUrls :: "string \<Rightarrow> string \<Rightarrow> string list" where
  "extractMediaUrls base content =
     (if content = [] then []
      else foldl set_add [] (found_urls base (undouble content)))"




section \<open>Document converter\<close>

text \<open>
  \<open>trim()\<close>, \<open>toLowerCase()\<close> on the code units below 256, \<open>test\<close>, the first-match
  \<open>replace\<close>, the global \<open>replace\<close> with a callback, and \<open>match[n] || ''\<close>.
\<close>

definition trim :: "string \<Rightarrow> string" where
  "trim s = rev (dropWhile js_space (rev (dropWhile js_space s)))"

definition lower_char :: "char \<Rightarrow> char" where
  "lower_char c =
     (let n = (of_char c :: nat)
      in if (65 \<le> n \<and> n \<le> 90) \<or> (192 \<le> n \<and> n \<le> 222 \<and> n \<noteq> 215) then char_of (n + 32) else c)"

definition toLowerCase :: "string \<Rightarrow> string" where
  "toLowerCase s = map lower_char s"

definition test :: "bool \<Rightarrow> re \<Rightarrow> string \<Rightarrow> bool" where
  "test ci r s = (exec ci r s \<noteq> None)"

definition replaceFirst :: "bool \<Rightarrow> re \<Rightarrow> string \<Rightarrow> string \<Rightarrow> string" where
  "replaceFirst ci r new s =
     (case exec ci r s of None \<Rightarrow> s | Some m \<Rightarrow> skipped m @ new @ after m)"

definition replaceAllWith :: "bool \<Rightarrow> re \<Rightarrow> (rmatch \<Rightarrow> string) \<Rightarrow> string \<Rightarrow> string" where
  "replaceAllWith ci r f s =
     (case matchAll ci r s of (ms, t) \<Rightarrow> concat (map (\<lambda>m. skipped m @ f m) ms) @ t)"

definition gstr :: "rmatch \<Rightarrow> nat \<Rightarrow> string" where
  "gstr m n = (case group m n of None \<Rightarrow> [] | Some g \<Rightarrow> g)"

text \<open>\<open>[^>]\<close>, \<open><img[^>]+>\<close>, \<open><[^>]+>\<close> and the block-editor comments.\<close>

definition notgt :: atom where
  "notgt = ANCls [C CHR ''>'']"

definition imgTag :: re where
  "imgTag = seqs [Lit ''<img'', Plus notgt, Lit ''>'']"

definition anyTag :: re where
  "anyTag = seqs [Lit ''<'', Plus notgt, Lit ''>'']"

definition wpOpen :: re where
  "wpOpen = seqs [Lit ''<!--'', Star (ACls [WS]), Lit ''wp:'', Star notgt, Lit ''-->'']"

definition wpClose :: re where
  "wpClose = seqs [Lit ''<!--'', Star (ACls [WS]), Lit ''/wp:'', Star notgt, Lit ''-->'']"

text \<open>
  \<open>preprocessWordPressContent\<close>: a caption shortcode with an image becomes a figure with
  the image and the rest of the inner text as caption; block-editor comments go; doubled
  quotes are un-doubled.
\<close>

definition captionToFigure :: "rmatch \<Rightarrow> string" where
  "captionToFigure m =
     (let inner = gstr m 1 in
      case exec True imgTag inner of
        None \<Rightarrow> matched m
      | Some imgMatch \<Rightarrow>
          ''<figure>'' @ matched imgMatch @ ''<figcaption>'' @
          trim (replaceFirst True imgTag [] inner) @ ''</figcaption></figure>'')"

definition preprocessWordPressContent :: "string \<Rightarrow> string" where
  "preprocessWordPressContent html =
     (if html = [] then html
      else trim (replaceAll False (Lit [dq, dq]) [dq]
                  (replaceAll False wpClose []
                    (replaceAll False wpOpen []
                      (replaceAllWith True captionPattern captionToFigure html)))))"

subsection \<open>Image nodes\<close>

definition srcAttr :: re where
  "srcAttr = seqs [Lit ''src='', One quote, Grp 1 (Plus nonquote), One quote]"

definition altAttr :: re where
  "altAttr = seqs [Lit ''alt='', One quote, Grp 1 (Star nonquote), One quote]"

definition widthAttr :: re where
  "widthAttr = seqs [Lit ''width='', Opt (One quote), Grp 1 (Plus (ACls [DIGIT])), Opt (One quote)]"

definition heightAttr :: re where
  "heightAttr = seqs [Lit ''height='', Opt (One quote), Grp 1 (Plus (ACls [DIGIT])), Opt (One quote)]"

definition createImageNode ::
  "string \<Rightarrow> string \<Rightarrow> string option \<Rightarrow> int option \<Rightarrow> int option \<Rightarrow> node" where
  "createImageNode s a caption w h =
     Block ''image''
       (Some (ImageAttrs \<lparr>src = s, alt = a, subCaption = caption,
                          withCaption = (case caption of None \<Rightarrow> False | Some t \<Rightarrow> t \<noteq> []),
                          fixed = False, captionDisplayOption = ''inner'',
                          width = w, height = h\<rparr>))
       None"

definition intAttr :: "re \<Rightarrow> string \<Rightarrow> int option" where
  "intAttr r tag = (case exec True r tag of None \<Rightarrow> None | Some m \<Rightarrow> parseInt (gstr m 1))"

definition createImageNodeFromImg :: "string \<Rightarrow> node" where
  "createImageNodeFromImg tag =
     createImageNode
       (case exec True srcAttr tag of None \<Rightarrow> [] | Some m \<Rightarrow> gstr m 1)
       (case exec True altAttr tag of None \<Rightarrow> [] | Some m \<Rightarrow> gstr m 1)
       None (intAttr widthAttr tag) (intAttr heightAttr tag)"

definition figureImg :: re where
  "figureImg = seqs [Lit ''<img'', Plus notgt, Lit ''src='', One quote, Grp 1 (Plus nonquote),
                     One quote, Star notgt, Lit ''>'']"

definition figcaption :: re where
  "figcaption = seqs [Lit ''<figcaption'', Star notgt, Lit ''>'', Grp 1 (Lazy AAny),
                      Lit ''</figcaption>'']"

definition createImageNodeFromFigure :: "string \<Rightarrow> node option" where
  "createImageNodeFromFigure html =
     (case exec True figureImg html of
        None \<Rightarrow> None
      | Some imgMatch \<Rightarrow>
          Some (createImageNode (gstr imgMatch 1)
                  (case exec True altAttr (matched imgMatch) of None \<Rightarrow> [] | Some m \<Rightarrow> gstr m 1)
                  (case exec True figcaption html of
                     None \<Rightarrow> None
                   | Some c \<Rightarrow> Some (trim (replaceAll False anyTag [] (gstr c 1))))
                  (intAttr widthAttr (matched imgMatch))
                  (intAttr heightAttr (matched imgMatch))))"

subsection \<open>Inline content\<close>

text \<open>
  The characters that replace \<open>&#8211;\<close> and \<open>&#8230;\<close> are code units above 255; the
  strings standing for them are parameters of the conversion.
\<close>

record glyphs =
  endash :: string
  ellipsis :: string

definition brTag :: re where
  "brTag = seqs [Lit ''<br'', Star (ACls [WS]), Opt (Lit ''/''), Lit ''>'']"

definition decodeEntities :: "glyphs \<Rightarrow> string \<Rightarrow> string" where
  "decodeEntities g html =
     replaceAll False (Lit ''&#8230;'') (ellipsis g)
      (replaceAll False (Lit ''&#8211;'') (endash g)
       (replaceAll False (Lit ''&#8221;'') [dq]
        (replaceAll False (Lit ''&#8220;'') [dq]
         (replaceAll False (Lit ''&#8217;'') [sq]
          (replaceAll False (Lit ''&quot;'') [dq]
           (replaceAll False (Lit ''&gt;'') ''>''
            (replaceAll False (Lit ''&lt;'') ''<''
             (replaceAll False (Lit ''&amp;'') ''&''
              (replaceAll False (Lit ''&nbsp;'') '' ''
               (replaceAll True brTag [CHR 0x0A] html))))))))))"

definition inlinePattern :: re where
  "inlinePattern =
     alts [seqs [Lit ''<'',
                 Grp 1 (alts [Lit ''a'', Lit ''strong'', Lit ''b'', Lit ''em'', Lit ''i'', Lit ''span'',
                              Lit ''sup'', Lit ''sub'', Lit ''cite'', Lit ''u'', Lit ''s'', Lit ''code'']),
                 Star notgt, Lit ''>'', Grp 2 (Lazy AAny), Lit ''</'', Ref 1, Lit ''>''],
           Grp 3 (Plus (ANCls [C CHR ''<''])),
           anyTag]"

definition hrefAttr :: re where
  "hrefAttr = seqs [Lit ''href='', One quote, Grp 1 (Plus nonquote), One quote]"

definition styleAttr :: re where
  "styleAttr = seqs [Lit ''style='', One quote, Grp 1 (Plus nonquote), One quote]"

definition fontWeightBold :: re where
  "fontWeightBold = seqs [Lit ''font-weight:'', Star (ACls [WS]), Lit ''bold'']"

definition fontStyleItalic :: re where
  "fontStyleItalic = seqs [Lit ''font-style:'', Star (ACls [WS]), Lit ''italic'']"

definition textDecorationUnderline :: re where
  "textDecorationUnderline = seqs [Lit ''text-decoration:'', Star (ACls [WS]), Lit ''underline'']"

text \<open>The marks that a tag adds to the inherited ones (the \<open>switch\<close> of \<open>parseWithMarks\<close>).\<close>

definition tagMarks :: "string \<Rightarrow> string \<Rightarrow> mark list" where
  "tagMarks tag whole =
     (if tag = ''a'' then
        (case exec True hrefAttr whole of
           None \<Rightarrow> [] | Some h \<Rightarrow> [Link (gstr h 1) ''_blank''])
      else if tag = ''strong'' \<or> tag = ''b'' then [Mark ''bold'']
      else if tag = ''em'' \<or> tag = ''i'' \<or> tag = ''cite'' then [Mark ''italic'']
      else if tag = ''u'' then [Mark ''underline'']
      else if tag = ''s'' then [Mark ''strike'']
      else if tag = ''sup'' then [Mark ''superscript'']
      else if tag = ''sub'' then [Mark ''subscript'']
      else if tag = ''code'' then [Mark ''code'']
      else if tag = ''span'' then
        (case exec True styleAttr whole of
           None \<Rightarrow> []
         | Some st \<Rightarrow>
             (if test True fontWeightBold (gstr st 1) then [Mark ''bold''] else []) @
             (if test True fontStyleItalic (gstr st 1) then [Mark ''italic''] else []) @
             (if test True textDecorationUnderline (gstr st 1) then [Mark ''underline''] else []))
      else [])"

text \<open>
  \<open>parseWithMarks\<close>: the text runs pushed to \<open>content\<close>, in order. The inner text of a
  tag is a proper part of the string matched, which is what the test on the lengths
  records for the termination of the recursion.
\<close>

function parseWithMarks :: "string \<Rightarrow> mark list \<Rightarrow> node list" where
  "parseWithMarks htmlStr inheritedMarks =
     (if htmlStr = [] then []
      else concat (map (\<lambda>m.
             case group m 3 of
               Some plainText \<Rightarrow> (if plainText \<noteq> [] then [TextRun plainText inheritedMarks] else [])
             | None \<Rightarrow>
                 (case (group m 1, group m 2) of
                    (Some tag, Some innerHtml) \<Rightarrow>
                      if tag \<noteq> [] \<and> length innerHtml < length htmlStr
                      then parseWithMarks innerHtml
                             (inheritedMarks @ tagMarks (toLowerCase tag) (matched m))
                      else []
                  | _ \<Rightarrow> []))
           (fst (matchAll True inlinePattern htmlStr))))"
  by pat_completeness auto
termination
  by (relation "measure (\<lambda>(s, ms). length s)") auto

declare parseWithMarks.simps [simp del]

text \<open>The text and the marks of a run.\<close>

fun run_text :: "node \<Rightarrow> string" where
  "run_text (TextRun t ms) = t"
| "run_text (Block ty at ct) = []"

fun run_marks :: "node \<Rightarrow> mark list" where
  "run_marks (TextRun t ms) = ms"
| "run_marks (Block ty at ct) = []"

text \<open>
  The clean-up loop: a run without text is skipped; a run with the marks of the last
  cleaned run is appended to it; any other run is pushed.
\<close>

fun cleanup :: "node list \<Rightarrow> node list \<Rightarrow> node list" where
  "cleanup cleaned [] = cleaned"
| "cleanup cleaned (n # rest) =
     (if run_text n = [] then cleanup cleaned rest
      else if cleaned \<noteq> [] \<and> run_marks (last cleaned) = run_marks n
      then cleanup (butlast cleaned @ [TextRun (run_text (last cleaned) @ run_text n)
                                          (run_marks (last cleaned))]) rest
      else cleanup (cleaned @ [n]) rest)"

definition parseInlineContent :: "glyphs \<Rightarrow> string \<Rightarrow> node list" where
  "parseInlineContent g html =
     (if html = [] then [] else cleanup [] (parseWithMarks (decodeEntities g html) []))"

subsection \<open>Block nodes\<close>

definition createCodeBlockNode :: "string \<Rightarrow> node" where
  "createCodeBlockNode html =
     (let text = trim (replaceAll False anyTag [] html)
      in Block ''codeBlock'' (Some CodeBlockAttrs)
           (if text \<noteq> [] then Some [TextRun text []] else None))"

definition createParagraphNode :: "glyphs \<Rightarrow> string \<Rightarrow> node" where
  "createParagraphNode g html =
     (let textContent = parseInlineContent g html
      in Block ''paragraph'' (Some (ParagraphAttrs ''left''))
           (if textContent \<noteq> [] then Some textContent else None))"

definition createHeadingNode :: "glyphs \<Rightarrow> string \<Rightarrow> int \<Rightarrow> node" where
  "createHeadingNode g html level =
     (let textContent = parseInlineContent g html
      in Block ''heading'' (Some (HeadingAttrs ''left'' level))
           (if textContent \<noteq> [] then Some textContent else None))"

definition liPattern :: re where
  "liPattern = seqs [Lit ''<li'', Star notgt, Lit ''>'', Grp 1 (Lazy AAny), Lit ''</li>'']"

definition createListNode :: "glyphs \<Rightarrow> string \<Rightarrow> bool \<Rightarrow> node" where
  "createListNode g html ordered =
     Block (if ordered then ''orderedList'' else ''bulletList'') None
       (Some (map (\<lambda>m. Block ''listItem'' None
                          (Some [Block ''paragraph'' (Some (ParagraphAttrs ''left''))
                                   (Some (parseInlineContent g (gstr m 1)))]))
                (fst (matchAll True liPattern html))))"

definition createBlockquoteNode :: "glyphs \<Rightarrow> string \<Rightarrow> node" where
  "createBlockquoteNode g html =
     Block ''blockquote'' None
       (Some [Block ''paragraph'' (Some (ParagraphAttrs ''left''))
                (Some (parseInlineContent g html))])"

definition trPattern :: re where
  "trPattern = seqs [Lit ''<tr'', Star notgt, Lit ''>'', Grp 1 (Lazy AAny), Lit ''</tr>'']"

definition cellPattern :: re where
  "cellPattern = seqs [Lit ''<'', Grp 1 (alts [Lit ''td'', Lit ''th'']), Star notgt, Lit ''>'',
                       Grp 2 (Lazy AAny), Lit ''</'', Ref 1, Lit ''>'']"

definition tableRow :: "glyphs \<Rightarrow> rmatch \<Rightarrow> node list" where
  "tableRow g trMatch =
     (let cells = map (\<lambda>cellMatch.
                    Block (if gstr cellMatch 1 = ''th'' then ''tableHeader'' else ''tableCell'') None
                      (Some [Block ''paragraph'' None
                               (Some (parseInlineContent g (gstr cellMatch 2)))]))
                  (fst (matchAll True cellPattern (gstr trMatch 1)))
      in if cells \<noteq> [] then [Block ''tableRow'' None (Some cells)] else [])"

definition createTableNode :: "glyphs \<Rightarrow> string \<Rightarrow> node" where
  "createTableNode g html =
     Block ''table'' None (Some (concat (map (tableRow g) (fst (matchAll True trPattern html)))))"

text \<open>
  \<open>parseStandaloneContent\<close>: the images of a piece of text outside blocks, with the text
  between them as paragraphs when it has more than tags.
\<close>

definition textParagraph :: "glyphs \<Rightarrow> string \<Rightarrow> node list" where
  "textParagraph g raw =
     (let text = trim raw
      in if text \<noteq> [] \<and> trim (replaceAll False anyTag [] text) \<noteq> []
         then [createParagraphNode g text] else [])"

definition parseStandaloneContent :: "glyphs \<Rightarrow> string \<Rightarrow> node list" where
  "parseStandaloneContent g html =
     (case matchAll True imgTag html of
        (ms, t) \<Rightarrow>
          (let nodes = concat (map (\<lambda>imgMatch. textParagraph g (skipped imgMatch) @
                                               [createImageNodeFromImg (matched imgMatch)]) ms)
                       @ textParagraph g t
           in if nodes \<noteq> [] then nodes else [createParagraphNode g html]))"

definition blockPattern :: re where
  "blockPattern =
     alts [seqs [Lit ''<'',
                 Grp 1 (alts [Lit ''p'', seqs [Lit ''h'', One (ACls [Rng CHR ''1'' CHR ''6''])],
                              Lit ''ul'', Lit ''ol'', Lit ''blockquote'', Lit ''figure'', Lit ''div'',
                              Lit ''table'', Lit ''pre'', Lit ''hr'']),
                 Star notgt, Lit ''>'', Grp 2 (Lazy AAny), Lit ''</'', Ref 1, Lit ''>''],
           seqs [Lit ''<'', Grp 3 (alts [Lit ''hr'', Lit ''br'']), Star (ACls [WS]),
                 Opt (Lit ''/''), Lit ''>'']]"

text \<open>
  \<open>parseBlockContent\<close> with the converter it calls as parameter \<open>rec\<close>; \<open>None\<close> is a
  conversion that did not finish.
\<close>

definition parseBlockContent :: "(string \<Rightarrow> node option option) \<Rightarrow> string \<Rightarrow> node list option" where
  "parseBlockContent rec html =
     (case rec html of
        None \<Rightarrow> None
      | Some None \<Rightarrow> Some []
      | Some (Some (Block ty at (Some content))) \<Rightarrow> Some content
      | Some (Some n) \<Rightarrow> Some [])"

text \<open>The nodes pushed for one match of the block pattern: the \<open>switch\<close> on the tag.\<close>

definition blockNodes ::
  "glyphs \<Rightarrow> (string \<Rightarrow> node option option) \<Rightarrow> string \<Rightarrow> string \<Rightarrow> node list option" where
  "blockNodes g rec tag innerHtml =
     (if tag = ''p'' then
        (case exec True imgTag innerHtml of
           Some pImgOnly \<Rightarrow>
             if trim (replaceAll True imgTag [] innerHtml) = []
             then Some [createImageNodeFromImg (matched pImgOnly)]
             else Some [createParagraphNode g innerHtml]
         | None \<Rightarrow> Some [createParagraphNode g innerHtml])
      else if tag \<in> {''h1'', ''h2'', ''h3'', ''h4'', ''h5'', ''h6''} then
        Some [createHeadingNode g innerHtml (case parseInt (drop 1 tag) of Some l \<Rightarrow> l | None \<Rightarrow> 0)]
      else if tag = ''ul'' \<or> tag = ''ol'' then Some [createListNode g innerHtml (tag = ''ol'')]
      else if tag = ''blockquote'' then Some [createBlockquoteNode g innerHtml]
      else if tag = ''figure'' then
        (case createImageNodeFromFigure innerHtml of Some imgNode \<Rightarrow> Some [imgNode] | None \<Rightarrow> Some [])
      else if tag = ''table'' then Some [createTableNode g innerHtml]
      else if tag = ''pre'' then Some [createCodeBlockNode innerHtml]
      else if tag = ''hr'' then Some [Block ''horizontalRule'' None None]
      else if tag = ''div'' then parseBlockContent rec innerHtml
      else Some [createParagraphNode g innerHtml])"

definition matchNodes ::
  "glyphs \<Rightarrow> (string \<Rightarrow> node option option) \<Rightarrow> rmatch \<Rightarrow> node list option" where
  "matchNodes g rec m =
     (let tag = toLowerCase (if gstr m 1 \<noteq> [] then gstr m 1 else gstr m 3);
          innerHtml = gstr m 2;
          textBefore = trim (skipped m)
      in case blockNodes g rec tag innerHtml of
           None \<Rightarrow> None
         | Some ns \<Rightarrow>
             Some ((if textBefore \<noteq> [] then parseStandaloneContent g textBefore else []) @ ns))"

text \<open>
  The body of \<open>convertHtmlToTipTapJson\<close>: \<open>null\<close> for the empty string, otherwise the
  document with the nodes of the blocks, of the text between and after them, or of the
  whole text as one paragraph when there would be no node.
\<close>

definition convertBody ::
  "glyphs \<Rightarrow> (string \<Rightarrow> node option option) \<Rightarrow> string \<Rightarrow> node option option" where
  "convertBody g rec html =
     (if html = [] then Some None
      else
        (let cleanHtml = preprocessWordPressContent html in
         case matchAll True blockPattern cleanHtml of
           (ms, t) \<Rightarrow>
             (case those (map (matchNodes g rec) ms) of
                None \<Rightarrow> None
              | Some nss \<Rightarrow>
                  (let remaining = trim t;
                       nodes = concat nss @
                               (if remaining \<noteq> [] then parseStandaloneContent g remaining else []);
                       nodes' = (if nodes = [] \<and> cleanHtml \<noteq> []
                                 then [createParagraphNode g cleanHtml] else nodes)
                   in Some (Some (Block ''doc'' None (Some nodes')))))))"

text \<open>
  \<open>convertHtmlToTipTapJson\<close> calls itself through \<open>parseBlockContent\<close> on the inner text
  of a \<open>div\<close>, after the text has been preprocessed again. The depth of these calls is
  bounded by the first argument; \<open>None\<close> is a conversion that would go deeper.
\<close>

primrec convertHtmlToTipTapJson :: "nat \<Rightarrow> glyphs \<Rightarrow> string \<Rightarrow> node option option" where
  "convertHtmlToTipTapJson 0 g = (\<lambda>html. None)"
| "convertHtmlToTipTapJson (Suc depth) g = convertBody g (convertHtmlToTipTapJson depth g)"

text \<open>
  Merged runs: no run has empty text and no two neighbours have the same marks.
\<close>

fun runs_merged :: "node list \<Rightarrow> bool" where
  "runs_merged [] = True"
| "runs_merged [x] = (run_text x \<noteq> [])"
| "runs_merged (x # y # r) = (run_text x \<noteq> [] \<and> run_marks x \<noteq> run_marks y \<and> runs_merged (y # r))"

section \<open>Statements on the target database\<close>

text \<open>
  A parameter sent for an integer column: a number is taken as it is, a string in the
  decimal form that the database reads (white space around an optional sign and digits),
  \<open>null\<close> and \<open>undefined\<close> as \<open>NULL\<close>; everything else, and a number outside the
  32-bit range, is rejected.
\<close>

definition pg_space :: "char \<Rightarrow> bool" where
  "pg_space c \<longleftrightarrow> of_char c \<in> {9, 10, 11, 12, 13, 32 :: nat}"

definition pg_int :: "string \<Rightarrow> int option" where
  "pg_int s =
     (let t = rev (dropWhile pg_space (rev (dropWhile pg_space s)));
          neg = (case t of [] \<Rightarrow> False | c # r \<Rightarrow> c = CHR ''-'');
          ds = (case t of [] \<Rightarrow> [] | c # r \<Rightarrow> if c = CHR ''-'' \<or> c = CHR ''+'' then r else t);
          n = foldl (\<lambda>acc c. acc * 10 + digit_val c) 0 ds;
          v = (if neg then - n else n)
      in if ds \<noteq> [] \<and> list_all is_digit ds \<and> int4 v then Some v else None)"

definition int_param :: "jsval \<Rightarrow> string + cell" where
  "int_param v =
     (case v of
        Null \<Rightarrow> Inr CNull
      | Num i \<Rightarrow> if int4 i then Inr (CInt i) else Inl ''integer out of range''
      | Str s \<Rightarrow> (case pg_int s of
                    Some i \<Rightarrow> Inr (CInt i)
                  | None \<Rightarrow> Inl ''invalid input syntax for type integer''))"

text \<open>The parameter of a key column, which takes no \<open>NULL\<close>.\<close>

definition key_param :: "jsval \<Rightarrow> string + cell" where
  "key_param v =
     (case int_param v of
        Inl e \<Rightarrow> Inl e
      | Inr c \<Rightarrow> if c = CNull then Inl ''null value violates not-null constraint'' else Inr c)"

text \<open>A string or \<open>undefined\<close> sent as a parameter, and \<open>String(v)\<close> of it.\<close>

definition text_param :: "string option \<Rightarrow> cell" where
  "text_param v = (case v of None \<Rightarrow> CNull | Some s \<Rightarrow> CText s)"

definition string_of :: "string option \<Rightarrow> string" where
  "string_of v = (case v of None \<Rightarrow> ''undefined'' | Some s \<Rightarrow> s)"

definition str_val :: "string option \<Rightarrow> jsval" where
  "str_val v = (case v of None \<Rightarrow> Null | Some s \<Rightarrow> Str s)"

definition str_truthy :: "string option \<Rightarrow> bool" where
  "str_truthy v \<longleftrightarrow> (case v of None \<Rightarrow> False | Some s \<Rightarrow> s \<noteq> [])"

text \<open>
  \<open>INSERT ... ON CONFLICT (keys) DO UPDATE SET cols = EXCLUDED.cols\<close> on the rows of a
  table: a row that agrees with the new one on the key columns takes over the listed
  columns; without such a row the new one is appended. Columns that the statement does
  not name are not represented.
\<close>

definition same_cols :: "string list \<Rightarrow> row \<Rightarrow> row \<Rightarrow> bool" where
  "same_cols keys new r \<longleftrightarrow> list_all (\<lambda>k. map_of r k = map_of new k) keys"

definition set_cols :: "string list \<Rightarrow> row \<Rightarrow> row \<Rightarrow> row" where
  "set_cols cols new r =
     map (\<lambda>(k, v). if k \<in> set cols then (case map_of new k of Some v' \<Rightarrow> (k, v') | None \<Rightarrow> (k, v))
                   else (k, v)) r"

definition upsert :: "string list \<Rightarrow> string list \<Rightarrow> row \<Rightarrow> row list \<Rightarrow> row list" where
  "upsert keys cols new rows =
     (if list_ex (same_cols keys new) rows
      then map (\<lambda>r. if same_cols keys new r then set_cols cols new r else r) rows
      else rows @ [new])"

text \<open>
  One upsert sent to the database. A parameter that cannot be cast, and whatever the
  database rejects the statement for, is the error thrown by \<open>db.query\<close>.
\<close>

definition upsert_row ::
  "db_oracle \<Rightarrow> string \<Rightarrow> string list \<Rightarrow> string list \<Rightarrow> string + row \<Rightarrow> world
    \<Rightarrow> string option \<times> world" where
  "upsert_row orc t keys cols new w =
     (let w' = w\<lparr>db_stmts := Suc (db_stmts w)\<rparr> in
      case new of
        Inl e \<Rightarrow> (Some e, w')
      | Inr r \<Rightarrow>
          (case orc (db_stmts w) of
             Some e \<Rightarrow> (Some e, w')
           | None \<Rightarrow> (None, w'\<lparr>db := (db w)(t := upsert keys cols r (db w t))\<rparr>)))"

text \<open>\<open>SELECT id FROM collection WHERE id = $1\<close>: whether there is such a row.\<close>

definition collection_exists :: "db_oracle \<Rightarrow> jsval \<Rightarrow> world \<Rightarrow> (string + bool) \<times> world" where
  "collection_exists orc collectionId w =
     (let w' = w\<lparr>db_stmts := Suc (db_stmts w)\<rparr> in
      case int_param collectionId of
        Inl e \<Rightarrow> (Inl e, w')
      | Inr c \<Rightarrow>
          (case orc (db_stmts w) of
             Some e \<Rightarrow> (Inl e, w')
           | None \<Rightarrow> (Inr (c \<noteq> CNull \<and> list_ex (\<lambda>r. map_of r ''id'' = Some c) (db w ''collection'')), w')))"

section \<open>Post migrator\<close>

text \<open>
  \<open>mapPostStatus\<close>: \<open>statusMap[wpStatus] || 'draft'\<close>. The posts that \<open>migrateWpPosts\<close>
  passes on have the status \<open>publish\<close>; the names that every object inherits
  (\<open>constructor\<close>, \<open>toString\<close> and the like) are not represented as statuses.
\<close>

definition mapPostStatus :: "string option \<Rightarrow> string" where
  "mapPostStatus wpStatus =
     (case map_of [(''publish'', ''published''), (''draft'', ''draft''), (''pending'', ''draft''),
                   (''private'', ''draft''), (''trash'', ''archived'')] (string_of wpStatus) of
        Some s \<Rightarrow> s
      | None \<Rightarrow> ''draft'')"

text \<open>
  Step 1: every URL is imported in turn; the first truthy identifier becomes the
  thumbnail.
\<close>

fun importMedia ::
  "remote \<Rightarrow> config \<Rightarrow> nat \<Rightarrow> string list \<Rightarrow> string option \<Rightarrow> world \<Rightarrow> string option \<times> world" where
  "importMedia rem cfg batchId [] thumbnailUuid w = (thumbnailUuid, w)"
| "importMedia rem cfg batchId (url # urls) thumbnailUuid w =
     (case importMediaUrl rem cfg batchId url w of
        (uuid, w') \<Rightarrow>
          importMedia rem cfg batchId urls
            (if str_truthy uuid \<and> \<not> str_truthy thumbnailUuid then uuid else thumbnailUuid) w')"

text \<open>
  The replacement patterns of \<open>String.prototype.replace\<close> in a replacement string, for an
  expression without groups: \<open>$$\<close>, \<open>$&\<close>, \<open>$`\<close> and \<open>$'\<close>.
\<close>

fun expand :: "string \<Rightarrow> string \<Rightarrow> string \<Rightarrow> string \<Rightarrow> string" where
  "expand m pre suf (a # b # r) =
     (if a = CHR ''$'' \<and> b = CHR ''$'' then CHR ''$'' # expand m pre suf r
      else if a = CHR ''$'' \<and> b = CHR ''&'' then m @ expand m pre suf r
      else if a = CHR ''$'' \<and> b = CHR 0x60 then pre @ expand m pre suf r
      else if a = CHR ''$'' \<and> b = sq then suf @ expand m pre suf r
      else a # expand m pre suf (b # r))"
| "expand m pre suf r = r"

text \<open>
  \<open>s.replace(new RegExp(escaped, 'g'), new)\<close>, where \<open>escaped\<close> is \<open>p\<close> with every special
  character escaped: the occurrences of \<open>p\<close> are replaced from left to right, without
  overlap. \<open>pre\<close> is the text already passed, \<open>skip\<close> the number of characters of the
  last occurrence still to pass.
\<close>

fun replaceEvery :: "string \<Rightarrow> string \<Rightarrow> string \<Rightarrow> nat \<Rightarrow> string \<Rightarrow> string" where
  "replaceEvery p new pre skip [] = (if p = [] then expand p pre [] new else [])"
| "replaceEvery p new pre skip (x # xs) =
     (if 0 < skip then replaceEvery p new (pre @ [x]) (skip - 1) xs
      else if p = [] then expand p pre (x # xs) new @ x # replaceEvery p new (pre @ [x]) 0 xs
      else if startsWith (x # xs) p
      then expand p pre (drop (length p) (x # xs)) new @ replaceEvery p new (pre @ [x]) (length p - 1) xs
      else x # replaceEvery p new (pre @ [x]) 0 xs)"

text \<open>Step 2: the URLs of the cache, in its order, give way to \<open>/assets/<uuid>\<close>.\<close>

definition replaceCached :: "url_cache \<Rightarrow> string \<Rightarrow> string" where
  "replaceCached cache html =
     foldl (\<lambda>transformedHtml (url, uuid).
              if js_includes transformedHtml url
              then replaceEvery url (''/assets/'' @ uuid) [] 0 transformedHtml
              else transformedHtml) html cache"

text \<open>\<open>http:\/\/localhost:\d+\/wp-content\/uploads\/([^"'\s]+)\<close>\<close>

definition localhostUploads :: re where
  "localhostUploads =
     seqs [Lit ''http://localhost:'', Plus (ACls [DIGIT]), Lit ''/wp-content/uploads/'',
           Grp 1 (Plus (ANCls [C dq, C sq, WS]))]"

definition replaceLocalhost :: "string \<Rightarrow> url_cache \<Rightarrow> string \<Rightarrow> string" where
  "replaceLocalhost base cache html =
     replaceAllWith False localhostUploads
       (\<lambda>m. case cache_get (base @ ''/wp-content/uploads/'' @ gstr m 1) cache of
               Some uuid \<Rightarrow> if uuid \<noteq> [] then ''/assets/'' @ uuid else matched m
             | None \<Rightarrow> matched m) html"

text \<open>\<open>v ? new Date(v) : null\<close>\<close>

definition date_param :: "string option \<Rightarrow> cell" where
  "date_param v = (if str_truthy v then CDate (string_of v) else CNull)"

text \<open>The two rows that a post becomes.\<close>

definition post_row ::
  "config \<Rightarrow> csv_record \<Rightarrow> string option \<Rightarrow> jsval \<Rightarrow> nat \<Rightarrow> string + row" where
  "post_row cfg post thumbnailUuid collectionId now =
     (case key_param (str_val (obj_get post ''ID'')) of
        Inl e \<Rightarrow> Inl e
      | Inr postId \<Rightarrow>
          (case int_param collectionId of
             Inl e \<Rightarrow> Inl e
           | Inr collection \<Rightarrow>
               Inr [(''id'', postId),
                    (''status'', CText (mapPostStatus (obj_get post ''post_status''))),
                    (''thumbnail'', text_param thumbnailUuid),
                    (''publish_date'', date_param (obj_get post ''post_date'')),
                    (''date_created'', if str_truthy (obj_get post ''post_date'')
                                       then CDate (string_of (obj_get post ''post_date''))
                                       else CTime now),
                    (''date_updated'', date_param (obj_get post ''post_modified'')),
                    (''collection'', collection),
                    (''author'', text_param (AUTHOR_ID cfg)),
                    (''author_name'', text_param (AUTHOR_NAME cfg)),
                    (''user_created'', text_param (AUTHOR_ID cfg))]))"

definition translation_row :: "csv_record \<Rightarrow> string \<Rightarrow> cell \<Rightarrow> string + row" where
  "translation_row post langCode contentJson =
     (case key_param (str_val (obj_get post ''ID'')) of
        Inl e \<Rightarrow> Inl e
      | Inr postId \<Rightarrow>
          Inr [(''post_id'', postId),
               (''languages_code'', CText langCode),
               (''title'', text_param (obj_get post ''post_title'')),
               (''description'', text_param (obj_get post ''post_excerpt'')),
               (''content'', contentJson),
               (''slug'', text_param (obj_get post ''post_name''))])"

text \<open>
  Steps 4 to 6: the collection is looked up and checked, then the two upserts are sent.
  The result is the error of the first statement that failed, or the collection.
\<close>

definition storePost ::
  "db_oracle \<Rightarrow> config \<Rightarrow> (string \<Rightarrow> string) \<Rightarrow> csv_record \<Rightarrow> (string option \<Rightarrow> jsval)
    \<Rightarrow> string option \<Rightarrow> cell \<Rightarrow> world \<Rightarrow> (string + jsval) \<times> world" where
  "storePost orc cfg detectLanguage post postCategoryMapping thumbnailUuid contentJson w =
     (let found = postCategoryMapping (obj_get post ''post_name'');
          checked = (if truthy found
                     then (case collection_exists orc found w of
                             (Inl e, w') \<Rightarrow> (Inl e, w')
                           | (Inr present, w') \<Rightarrow> (Inr (if present then found else Null), w'))
                     else (Inr Null, w))
      in case checked of
           (Inl e, w1) \<Rightarrow> (Inl e, w1)
         | (Inr collectionId, w1) \<Rightarrow>
             (let title = obj_get post ''post_title'';
                  langCode = detectLanguage
                    (string_of (if str_truthy title then title else obj_get post ''post_name''))
              in case upsert_row orc ''post'' [''id'']
                        [''status'', ''thumbnail'', ''publish_date'', ''date_updated'', ''collection'',
                         ''author'', ''author_name'', ''user_created'']
                        (post_row cfg post thumbnailUuid collectionId (clock w1)) w1 of
                   (Some e, w2) \<Rightarrow> (Inl e, w2)
                 | (None, w2) \<Rightarrow>
                     (case upsert_row orc ''post_translations'' [''post_id'', ''languages_code'']
                             [''title'', ''description'', ''content'', ''slug'']
                             (translation_row post langCode contentJson) w2 of
                        (Some e, w3) \<Rightarrow> (Inl e, w3)
                      | (None, w3) \<Rightarrow> (Inr collectionId, w3))))"

datatype post_result =
    Skipped "string option"
  | Success "string option" nat
  | Failed "string option" string

text \<open>
  \<open>migrateSingleWpPost\<close>. The language detector works on characters outside the range
  of the strings here and is a parameter, as are the endpoint and the database; \<open>depth\<close>
  bounds the recursion of the converter, and \<open>None\<close> says that it did not suffice. The
  tracked snapshot has the fields that \<open>JSON.stringify\<close> keeps.
\<close>

definition migrateSingleWpPost ::
  "remote \<Rightarrow> db_oracle \<Rightarrow> config \<Rightarrow> glyphs \<Rightarrow> (string \<Rightarrow> string) \<Rightarrow> nat \<Rightarrow> nat \<Rightarrow> csv_record
    \<Rightarrow> (string option \<Rightarrow> jsval) \<Rightarrow> world \<Rightarrow> (post_result \<times> world) option" where
  "migrateSingleWpPost rem orc cfg g detectLanguage depth batchId post postCategoryMapping w =
     (let postId = obj_get post ''ID'';
          oldId = string_of postId
      in if isAlreadyMigrated ''post'' oldId (migrationDb w) then Some (Skipped postId, w)
         else
           (let content = obj_get post ''post_content'';
                mediaUrls = (if str_truthy content
                             then extractMediaUrls (WP_BASE_URL cfg) (string_of content) else []);
                imported = importMedia rem cfg batchId mediaUrls None w;
                thumbnailUuid = fst imported;
                w1 = snd imported;
                transformedHtml =
                  replaceLocalhost (WP_BASE_URL cfg) (urlToUuidCache w1)
                    (replaceCached (urlToUuidCache w1)
                       (if str_truthy content then string_of content else []))
            in case convertHtmlToTipTapJson depth g transformedHtml of
                 None \<Rightarrow> None
               | Some doc \<Rightarrow>
                   (let tiptapJson = replaceUrlsInTipTapJson (WP_BASE_URL cfg) doc (urlToUuidCache w1);
                        contentJson = CContent tiptapJson transformedHtml (clock w1)
                    in case storePost orc cfg detectLanguage post postCategoryMapping
                              thumbnailUuid contentJson w1 of
                         (Inr collectionId, w2) \<Rightarrow>
                           Some (Success postId (length mediaUrls),
                                 track batchId ''post'' oldId (str_val postId) ''success''
                                   (Some ((case postId of None \<Rightarrow> [] | Some i \<Rightarrow> [(''ID'', Str i)]) @
                                          (case obj_get post ''post_name'' of
                                             None \<Rightarrow> [] | Some n \<Rightarrow> [(''post_name'', Str n)]) @
                                          [(''thumbnail'', str_val thumbnailUuid),
                                           (''collection'', collectionId),
                                           (''imagesImported'', Num (int (length mediaUrls)))]))
                                   None w2)
                       | (Inl msg, w2) \<Rightarrow>
                           Some (Failed postId msg,
                                 track batchId ''post'' oldId Null ''failed''
                                   (Some (case postId of None \<Rightarrow> [] | Some i \<Rightarrow> [(''ID'', Str i)]))
                                   (Some msg) w2))))"

section \<open>Migration run\<close>

text \<open>
  The files of \<open>DATA_DIR\<close> that the first steps read, \<open>None\<close> for a file that does not
  exist: \<open>directus_tags.json\<close> is an array of objects and \<open>category.json\<close> an object
  whose entries, in the order of \<open>Object.entries\<close>, map a name to an object. The objects
  have fields of primitive values; a field that is not there reads as \<open>undefined\<close>.
\<close>

record data_dir =
  directus_tags :: "snapshot list option"
  category :: "(string \<times> snapshot) list option"

definition val_of :: "jsval option \<Rightarrow> jsval" where
  "val_of v = (case v of None \<Rightarrow> Null | Some x \<Rightarrow> x)"

definition String_of :: "jsval option \<Rightarrow> string" where
  "String_of v = (case v of None \<Rightarrow> ''undefined'' | Some x \<Rightarrow> js_String x)"

definition text_cell :: "jsval option \<Rightarrow> cell" where
  "text_cell v = (if val_of v = Null then CNull else CText (String_of v))"

definition int_truthy :: "int option \<Rightarrow> bool" where
  "int_truthy v \<longleftrightarrow> (case v of None \<Rightarrow> False | Some n \<Rightarrow> n \<noteq> 0)"

text \<open>
  \<open>createBatch\<close> and \<open>completeBatch\<close>. A new batch has the default status \<open>running\<close>.
\<close>

definition createBatch :: "string \<Rightarrow> string \<Rightarrow> world \<Rightarrow> nat \<times> world" where
  "createBatch batchName desc w =
     (let tdb = migrationDb w
      in (batch_seq tdb,
          w\<lparr>migrationDb :=
               tdb\<lparr>batches := batches tdb @
                       [\<lparr>mb_id = batch_seq tdb, batch_name = batchName, description = desc,
                         mb_status = ''running'', completed_at = None, mb_error_message = None\<rparr>],
                    batch_seq := Suc (batch_seq tdb)\<rparr>,
             clock := Suc (clock w)\<rparr>))"

definition completeBatch :: "nat \<Rightarrow> string \<Rightarrow> string option \<Rightarrow> world \<Rightarrow> world" where
  "completeBatch batchId st errorMessage w =
     w\<lparr>migrationDb :=
          (migrationDb w)\<lparr>batches :=
             map (\<lambda>x. if mb_id x = batchId
                       then x\<lparr>mb_status := st, completed_at := Some (clock w),
                              mb_error_message := errorMessage\<rparr>
                       else x) (batches (migrationDb w))\<rparr>,
        clock := Suc (clock w)\<rparr>"

text \<open>
  \<open>INSERT ... ON CONFLICT DO NOTHING RETURNING id\<close> into a table whose only key is the
  generated \<open>id\<close>: \<open>serial n\<close> is the identifier that the sequence gives at the \<open>n\<close>-th
  statement. When a row has it already nothing is inserted and no row is returned.
\<close>

definition insert_returning ::
  "db_oracle \<Rightarrow> (nat \<Rightarrow> int) \<Rightarrow> string \<Rightarrow> string + row \<Rightarrow> world \<Rightarrow> (string + int option) \<times> world" where
  "insert_returning orc serial t new w =
     (let w' = w\<lparr>db_stmts := Suc (db_stmts w)\<rparr>;
          newId = serial (db_stmts w)
      in case new of
           Inl e \<Rightarrow> (Inl e, w')
         | Inr r \<Rightarrow>
             (case orc (db_stmts w) of
                Some e \<Rightarrow> (Inl e, w')
              | None \<Rightarrow>
                  if list_ex (\<lambda>x. map_of x ''id'' = Some (CInt newId)) (db w t) then (Inr None, w')
                  else (Inr (Some newId),
                        w'\<lparr>db := (db w)(t := db w t @ [(''id'', CInt newId) # r])\<rparr>)))"

text \<open>\<open>migrateTags\<close>: the body of the loop, then the loop over the file.\<close>

definition tag_row :: "snapshot \<Rightarrow> string + row" where
  "tag_row tag =
     (case key_param (val_of (map_of tag ''tag_id'')) of
        Inl e \<Rightarrow> Inl e
      | Inr i \<Rightarrow> Inr [(''id'', i)])"

definition migrateTag :: "db_oracle \<Rightarrow> nat \<Rightarrow> world \<Rightarrow> snapshot \<Rightarrow> world" where
  "migrateTag orc batchId w tag =
     (let oldId = String_of (map_of tag ''tag_id'')
      in if isAlreadyMigrated ''tag'' oldId (migrationDb w) then w
         else case upsert_row orc ''tag'' [''id''] [] (tag_row tag) w of
                (None, w') \<Rightarrow>
                  track batchId ''tag'' oldId (val_of (map_of tag ''tag_id'')) ''success''
                    (Some tag) None w'
              | (Some msg, w') \<Rightarrow>
                  track batchId ''tag'' oldId Null ''failed'' (Some tag) (Some msg) w')"

definition migrateTags :: "db_oracle \<Rightarrow> data_dir \<Rightarrow> nat \<Rightarrow> nat \<Rightarrow> world \<Rightarrow> world" where
  "migrateTags orc dir batchId migrationLimit w =
     (case directus_tags dir of
        None \<Rightarrow> w
      | Some tags \<Rightarrow>
          foldl (migrateTag orc batchId) w
            (if 0 < migrationLimit then take migrationLimit tags else tags))"

text \<open>\<open>migrateTagTranslations\<close>\<close>

definition tag_translation_row :: "snapshot \<Rightarrow> string + row" where
  "tag_translation_row tag =
     (case int_param (val_of (map_of tag ''tag_id'')) of
        Inl e \<Rightarrow> Inl e
      | Inr i \<Rightarrow>
          Inr [(''tag_id'', i), (''languages_code'', CText ''vi-VN''),
               (''name'', text_cell (map_of tag ''name'')),
               (''slug'', text_cell (map_of tag ''slug''))])"

definition migrateTagTranslation ::
  "db_oracle \<Rightarrow> (nat \<Rightarrow> int) \<Rightarrow> nat \<Rightarrow> world \<Rightarrow> snapshot \<Rightarrow> world" where
  "migrateTagTranslation orc serial batchId w tag =
     (let oldId = String_of (map_of tag ''tag_id'') @ ''_vi-VN''
      in if isAlreadyMigrated ''tag_translations'' oldId (migrationDb w) then w
         else case insert_returning orc serial ''tag_translations'' (tag_translation_row tag) w of
                (Inr (Some newId), w') \<Rightarrow>
                  track batchId ''tag_translations'' oldId (Num newId) ''success'' (Some tag) None w'
              | (Inr None, w') \<Rightarrow> w'
              | (Inl msg, w') \<Rightarrow>
                  track batchId ''tag_translations'' oldId Null ''failed'' (Some tag) (Some msg) w')"

definition migrateTagTranslations ::
  "db_oracle \<Rightarrow> (nat \<Rightarrow> int) \<Rightarrow> data_dir \<Rightarrow> nat \<Rightarrow> nat \<Rightarrow> world \<Rightarrow> world" where
  "migrateTagTranslations orc serial dir batchId migrationLimit w =
     (case directus_tags dir of
        None \<Rightarrow> w
      | Some tags \<Rightarrow>
          foldl (migrateTagTranslation orc serial batchId) w
            (if 0 < migrationLimit then take migrationLimit tags else tags))"

text \<open>
  \<open>migrateCategories\<close>. \<open>uniqueCategories\<close> is a \<open>Map\<close> from \<open>data.id\<close> to
  \<open>{id, name, priority}\<close>, the first entry of each \<open>id\<close> in the order of the file. The
  templates are checked after the file has been read; the result is the message of the
  error thrown, if one is.
\<close>

definition field :: "string \<Rightarrow> jsval option \<Rightarrow> snapshot" where
  "field k v = (case v of None \<Rightarrow> [] | Some x \<Rightarrow> [(k, x)])"

definition uniqueCategories :: "(string \<times> snapshot) list \<Rightarrow> (jsval option \<times> snapshot) list" where
  "uniqueCategories categories =
     foldl (\<lambda>m (name, cdata).
              if list_ex (\<lambda>e. fst e = map_of cdata ''id'') m then m
              else m @ [(map_of cdata ''id'',
                         field ''id'' (map_of cdata ''id'') @ [(''name'', Str name)] @
                         field ''priority'' (map_of cdata ''priority''))])
       [] categories"

definition collection_row :: "int \<Rightarrow> int \<Rightarrow> jsval option \<Rightarrow> snapshot \<Rightarrow> string + row" where
  "collection_row collectionTemplateId postTemplateId cid cat =
     (case key_param (val_of cid) of
        Inl e \<Rightarrow> Inl e
      | Inr i \<Rightarrow>
          (case int_param (val_of (map_of cat ''priority'')) of
             Inl e \<Rightarrow> Inl e
           | Inr p \<Rightarrow>
               Inr [(''id'', i), (''sort'', p), (''is_visible'', CBool True),
                    (''template'', CInt collectionTemplateId),
                    (''post_template'', CInt postTemplateId)]))"

definition migrateCategory ::
  "db_oracle \<Rightarrow> int \<Rightarrow> int \<Rightarrow> nat \<Rightarrow> world \<Rightarrow> jsval option \<times> snapshot \<Rightarrow> world" where
  "migrateCategory orc collectionTemplateId postTemplateId batchId w entry =
     (let cid = fst entry; cat = snd entry; oldId = String_of cid
      in if isAlreadyMigrated ''collection'' oldId (migrationDb w) then w
         else case upsert_row orc ''collection'' [''id'']
                     [''sort'', ''is_visible'', ''template'', ''post_template'']
                     (collection_row collectionTemplateId postTemplateId cid cat) w of
                (None, w') \<Rightarrow>
                  track batchId ''collection'' oldId (val_of cid) ''success'' (Some cat) None w'
              | (Some msg, w') \<Rightarrow>
                  track batchId ''collection'' oldId Null ''failed'' (Some cat) (Some msg) w')"

definition migrateCategories ::
  "db_oracle \<Rightarrow> config \<Rightarrow> data_dir \<Rightarrow> nat \<Rightarrow> nat \<Rightarrow> world \<Rightarrow> string option \<times> world" where
  "migrateCategories orc cfg dir batchId migrationLimit w =
     (case category dir of
        None \<Rightarrow> (None, w)
      | Some categories \<Rightarrow>
          if \<not> int_truthy (POST_TEMPLATE_ID cfg) \<or> \<not> int_truthy (COLLECTION_TEMPLATE_ID cfg)
          then (Some (''POST_TEMPLATE_ID and COLLECTION_TEMPLATE_ID must be provided via '' @
                      ''--post-template and --collection-template flags''), w)
          else
            (let categoriesToProcess =
                   (if 0 < migrationLimit then take migrationLimit (uniqueCategories categories)
                    else uniqueCategories categories)
             in (None,
                 foldl (migrateCategory orc (case COLLECTION_TEMPLATE_ID cfg of Some n \<Rightarrow> n | None \<Rightarrow> 0)
                          (case POST_TEMPLATE_ID cfg of Some n \<Rightarrow> n | None \<Rightarrow> 0) batchId)
                   w categoriesToProcess)))"

text \<open>
  \<open>runMigration\<close>. \<open>process.exit(1)\<close> ends the run before the batch is created; an error
  thrown by a step marks the batch as failed and is thrown again; otherwise the batch is
  completed. The steps after the categories (\<open>migrateCategoryTranslations\<close>,
  \<open>migrateWpPosts\<close> and \<open>migratePostTags\<close>, in this order) are the parameter \<open>later\<close>, from
  the batch, the limit and the state to the error thrown, if one is, and the state left;
  \<open>today\<close> gives the date of the batch name from the clock.
\<close>

datatype run_result = Exited nat | Completed nat | Aborted nat string

definition runMigration ::
  "db_oracle \<Rightarrow> (nat \<Rightarrow> int) \<Rightarrow> (nat \<Rightarrow> string) \<Rightarrow> config \<Rightarrow> data_dir
    \<Rightarrow> (nat \<Rightarrow> nat \<Rightarrow> world \<Rightarrow> string option \<times> world) \<Rightarrow> nat \<Rightarrow> world \<Rightarrow> run_result \<times> world" where
  "runMigration orc serial today cfg dir later migrationLimit w =
     (if \<not> str_truthy (DIRECTUS_TOKEN cfg) then (Exited 1, w)
      else if \<not> str_truthy (DIRECTUS_FOLDER_ID cfg) then (Exited 1, w)
      else
        (let created = createBatch (''migration_'' @ today (clock w))
                         (if migrationLimit = 0 then ''Full WordPress to Directus migration''
                          else ''Test migration (limit: '' @ dec_nat migrationLimit @ '')'') w;
             batchId = fst created;
             w1 = migrateTags orc dir batchId 0 (snd created);
             w2 = migrateTagTranslations orc serial dir batchId 0 w1
         in case migrateCategories orc cfg dir batchId 0 w2 of
              (Some msg, w3) \<Rightarrow> (Aborted batchId msg, completeBatch batchId ''failed'' (Some msg) w3)
            | (None, w3) \<Rightarrow>
                (case later batchId migrationLimit w3 of
                   (Some msg, w4) \<Rightarrow>
                     (Aborted batchId msg, completeBatch batchId ''failed'' (Some msg) w4)
                 | (None, w4) \<Rightarrow> (Completed batchId, completeBatch batchId ''completed'' None w4))))"

section \<open>Example states\<close>

definition ex_tracking :: tracking where
  "ex_tracking = \<lparr>batches = [], data =
     [\<lparr>md_id = 0, batch_id = 1, table_name = ''post'', old_id = ''7'', new_id = None,
       status = ''failed'', error_message = Some ''boom'',
       source_data = Some [(''ID'', Str ''7'')], created_at = 5, updated_at = 5\<rparr>],
     batch_seq = 2, data_seq = 1\<rparr>"

definition ex_config :: config where
  "ex_config = \<lparr>WP_BASE_URL = ''https://example.com'', DIRECTUS_TOKEN = Some ''t'',
     DIRECTUS_FOLDER_ID = Some ''f'', AUTHOR_ID = Some ''a'', AUTHOR_NAME = Some ''n'',
     POST_TEMPLATE_ID = Some 46, COLLECTION_TEMPLATE_ID = Some 57\<rparr>"

definition ex_world :: world where
  "ex_world = \<lparr>migrationDb = ex_tracking, db = (\<lambda>t. []), db_stmts = 0, urlToUuidCache = [],
     import_log = [], clock = 10\<rparr>"

definition remote_down :: remote where
  "remote_down n url = Inl ''timeout''"

definition remote_ok :: remote where
  "remote_ok n url = Inr ''uuid-2''"







definition db_ok :: db_oracle where
  "db_ok n = None"


definition ex_image :: "string \<Rightarrow> node" where
  "ex_image s = Block ''image''
     (Some (ImageAttrs \<lparr>src = s, alt = [], subCaption = None, withCaption = False, fixed = False,
                         captionDisplayOption = ''inner'', width = None, height = None\<rparr>)) None"

definition ex_doc :: "string list \<Rightarrow> node" where
  "ex_doc ss = Block ''doc'' None (Some [Block ''blockquote'' None (Some (map ex_image ss))])"









definition ex_glyphs :: glyphs where
  "ex_glyphs = \<lparr>endash = ''-'', ellipsis = ''...''\<rparr>"

definition ex_paragraph :: string where
  "ex_paragraph = ''<p><strong>Hi</strong> there</p>''"

text \<open>A post with one image and a world in which it is not tracked as migrated.\<close>

definition ex_post :: csv_record where
  "ex_post = [(''ID'', ''7''), (''post_title'', ''Hello''), (''post_name'', ''hello''),
     (''post_status'', ''publish''), (''post_date'', ''2024-01-02 03:04:05''),
     (''post_content'', ''<p><img src='' @ [dq] @ ''/wp-content/uploads/2020/x.png'' @ [dq] @ ''>Hi</p>'')]"

definition ex_mapping :: "string option \<Rightarrow> jsval" where
  "ex_mapping n = (if n = Some ''hello'' then Num 3 else Null)"

definition ex_lang :: "string \<Rightarrow> string" where
  "ex_lang s = ''en-VN''"

text \<open>The same world after post 7 has been tracked as migrated.\<close>

definition ex_world_migrated :: world where
  "ex_world_migrated =
     ex_world\<lparr>migrationDb := trackMigration 10 1 ''post'' ''7'' (Str ''7'') ''success'' None None
                                 ex_tracking\<rparr>"

text \<open>
  A run started with the token and \<open>--folder\<close> only, on a data directory with one tag and
  one category, and empty databases.
\<close>

definition ex_config_bare :: config where
  "ex_config_bare = \<lparr>WP_BASE_URL = ''https://example.com'', DIRECTUS_TOKEN = Some ''t'',
     DIRECTUS_FOLDER_ID = Some ''f'', AUTHOR_ID = None, AUTHOR_NAME = None,
     POST_TEMPLATE_ID = None, COLLECTION_TEMPLATE_ID = None\<rparr>"

definition ex_dir :: data_dir where
  "ex_dir = \<lparr>directus_tags = Some [[(''tag_id'', Num 5), (''name'', Str ''Tips''), (''slug'', Str ''tips'')]],
     category = Some [(''News'', [(''id'', Num 1), (''priority'', Num 1)])]\<rparr>"

definition ex_world_empty :: world where
  "ex_world_empty =
     \<lparr>migrationDb = \<lparr>batches = [], data = [], batch_seq = 1, data_seq = 1\<rparr>,
      db = (\<lambda>t. []), db_stmts = 0, urlToUuidCache = [], import_log = [], clock = 0\<rparr>"

definition ex_serial :: "nat \<Rightarrow> int" where
  "ex_serial n = 100 + int n"

definition ex_today :: "nat \<Rightarrow> string" where
  "ex_today n = ''2024-01-02''"

section \<open>Properties of the tracking store\<close>

lemma trackMigration_batches:
  "batches (trackMigration now b t oid nid st sdata err tdb) = batches tdb"
  by (simp add: trackMigration_def Let_def)

lemma trackMigration_conflict_data:
  "list_ex (same_key t oid b) (data tdb) \<Longrightarrow>
   data (trackMigration now b t oid nid st sdata err tdb) =
     map (\<lambda>r. if same_key t oid b r
               then conflict_update (if truthy nid then Some (js_String nid) else None) st err now r
               else r) (data tdb)"
  by (simp add: trackMigration_def Let_def)

text \<open>
  C10. When \<open>trackMigration\<close> hits a row with the same \<open>(table_name, old_id, batch_id)\<close>,
  no row is added and no batch changes; every row keeps its id, key, source-data snapshot
  and created-at timestamp; the rows of that key get the new identifier, status, error
  message and updated-at timestamp, and every other row is left as it was.
\<close>

theorem conflict_update_frame:
  "x \<in> set (data tdb) \<Longrightarrow> same_key tableName oldId batchId x \<Longrightarrow>
   (let tdb' = trackMigration now batchId tableName oldId newId st sourceData errorMessage tdb in
    batches tdb' = batches tdb \<and> length (data tdb') = length (data tdb) \<and>
    (\<forall>i<length (data tdb).
        let r = data tdb ! i; r' = data tdb' ! i in
        md_id r' = md_id r \<and> batch_id r' = batch_id r \<and> table_name r' = table_name r \<and>
        old_id r' = old_id r \<and> source_data r' = source_data r \<and> created_at r' = created_at r \<and>
        (if same_key tableName oldId batchId r
         then new_id r' = (if truthy newId then Some (js_String newId) else None) \<and>
              status r' = st \<and> error_message r' = errorMessage \<and> updated_at r' = now
         else r' = r)))"
proof -
  assume a: "x \<in> set (data tdb)" "same_key tableName oldId batchId x"
  then have ex: "list_ex (same_key tableName oldId batchId) (data tdb)"
    by (auto simp: list_ex_iff)
  show ?thesis
    unfolding Let_def trackMigration_conflict_data [OF ex] trackMigration_batches
    by (simp add: conflict_update_def)
qed

theorem conflict_update_frame_witness:
  "hd (data ex_tracking) \<in> set (data ex_tracking) \<and>
   same_key ''post'' ''7'' 1 (hd (data ex_tracking)) \<and>
   (let tdb' = trackMigration 9 1 ''post'' ''7'' (Str ''7'') ''success''
                (Some [(''ID'', Str ''7''), (''post_name'', Str ''a'')]) None ex_tracking
    in length (data tdb') = 1 \<and>
       source_data (data tdb' ! 0) = Some [(''ID'', Str ''7'')] \<and>
       created_at (data tdb' ! 0) = 5 \<and> md_id (data tdb' ! 0) = 0 \<and>
       new_id (data tdb' ! 0) = Some ''7'' \<and> status (data tdb' ! 0) = ''success'' \<and>
       error_message (data tdb' ! 0) = None \<and> updated_at (data tdb' ! 0) = 9)"
proof -
  have h1: "hd (data ex_tracking) \<in> set (data ex_tracking)"
    by (simp add: ex_tracking_def)
  have h2: "same_key ''post'' ''7'' 1 (hd (data ex_tracking))"
    by (simp add: ex_tracking_def same_key_def)
  have len: "length (data ex_tracking) = 1"
    by (simp add: ex_tracking_def)
  have row: "data ex_tracking ! 0 = hd (data ex_tracking)"
    by (simp add: ex_tracking_def)
  have vals: "source_data (hd (data ex_tracking)) = Some [(''ID'', Str ''7'')]"
    "created_at (hd (data ex_tracking)) = 5" "md_id (hd (data ex_tracking)) = 0"
    by (simp_all add: ex_tracking_def)
  show ?thesis
    using h1 h2 conflict_update_frame [OF h1 h2, of 9 "Str ''7''" "''success''"
          "Some [(''ID'', Str ''7''), (''post_name'', Str ''a'')]" None]
    by (simp add: Let_def len row vals)
qed

lemma trackMigration_has_key:
  "\<exists>r\<in>set (data (trackMigration now b t oid nid st sdata err tdb)).
      same_key t oid b r \<and> status r = st \<and> error_message r = err \<and>
      new_id r = (if truthy nid then Some (js_String nid) else None)"
proof (cases "list_ex (same_key t oid b) (data tdb)")
  case True
  let ?n = "if truthy nid then Some (js_String nid) else None"
  let ?f = "\<lambda>r. if same_key t oid b r then conflict_update ?n st err now r else r"
  from True obtain x where x: "x \<in> set (data tdb)" "same_key t oid b x"
    by (auto simp: list_ex_iff)
  have d: "data (trackMigration now b t oid nid st sdata err tdb) = map ?f (data tdb)"
    using True by (simp add: trackMigration_def Let_def)
  have "?f x \<in> set (map ?f (data tdb))"
    using x(1) by (rule imageI [of x "set (data tdb)" ?f, folded set_map])
  moreover have "?f x = conflict_update ?n st err now x"
    using x(2) by simp
  moreover have "same_key t oid b (conflict_update ?n st err now x)"
    using x(2) by (simp add: same_key_def conflict_update_def)
  ultimately show ?thesis
    unfolding d by (intro bexI [of _ "conflict_update ?n st err now x"]) (simp_all add: conflict_update_def)
next
  case False
  then show ?thesis
    by (simp add: trackMigration_def Let_def same_key_def)
qed


section \<open>Properties of the media importer\<close>




























section \<open>Properties of the batch rollback\<close>








section \<open>Properties of the URL rewriter\<close>

lemma rewritten_src_empty: "rewritten_src base m [] = []"
  by (simp add: rewritten_src_def)

lemma processNode_srcs:
  "image_srcs (processNode base m n) = map (rewritten_src base m) (image_srcs n)"
proof (induction n)
  case (TextRun t ms)
  show ?case by simp
next
  case (Block ty at ct)
  have kids: "(case (case ct of None \<Rightarrow> None | Some ns \<Rightarrow> Some (map (processNode base m) ns)) of
                None \<Rightarrow> [] | Some ns \<Rightarrow> concat (map image_srcs ns)) =
              map (rewritten_src base m) (case ct of None \<Rightarrow> [] | Some ns \<Rightarrow> concat (map image_srcs ns))"
  proof (cases ct)
    case None
    then show ?thesis by simp
  next
    case (Some ns)
    have "\<And>x. x \<in> set ns \<Longrightarrow> image_srcs (processNode base m x) = map (rewritten_src base m) (image_srcs x)"
      using Block.IH Some by auto
    then show ?thesis
      using Some by (simp add: map_concat comp_def cong: map_cong)
  qed
  show ?case
  proof (cases at)
    case None
    then show ?thesis using kids by simp
  next
    case (Some a)
    show ?thesis
    proof (cases a)
      case (ImageAttrs ia)
      show ?thesis
        using Some ImageAttrs kids
        by (cases "src ia = []")
           (simp_all add: rewritten_src_def split: option.splits)
    qed (use Some kids in simp_all)
  qed
qed

lemma processNode_blank: "blank_srcs (processNode base m n) = blank_srcs n"
proof (induction n)
  case (TextRun t ms)
  show ?case by simp
next
  case (Block ty at ct)
  have kids: "(case (case ct of None \<Rightarrow> None | Some ns \<Rightarrow> Some (map (processNode base m) ns)) of
                None \<Rightarrow> None | Some ns \<Rightarrow> Some (map blank_srcs ns)) =
              (case ct of None \<Rightarrow> None | Some ns \<Rightarrow> Some (map blank_srcs ns))"
  proof (cases ct)
    case None
    then show ?thesis by simp
  next
    case (Some ns)
    have "\<And>x. x \<in> set ns \<Longrightarrow> blank_srcs (processNode base m x) = blank_srcs x"
      using Block.IH Some by auto
    then show ?thesis
      using Some by (simp add: comp_def cong: map_cong)
  qed
  show ?case
  proof (cases at)
    case None
    then show ?thesis using kids by simp
  next
    case (Some a)
    show ?thesis
    proof (cases a)
      case (ImageAttrs ia)
      show ?thesis
        using Some ImageAttrs kids
        by (simp split: option.splits)
    qed (use Some kids in simp_all)
  qed
qed

text \<open>
  C9. The rewriter processes every node of the content, at any depth. In document order,
  the \<open>src\<close> of each image node becomes \<open>/assets/<id>\<close> when it starts with
  \<open>/wp-content/uploads/\<close> and the map has a non-empty \<open>id\<close> for base URL + \<open>src\<close>, or
  when it does not start with but contains \<open>/wp-content/uploads/\<close> and the map has a
  non-empty \<open>id\<close> for \<open>src\<close> itself; every other \<open>src\<close> is kept verbatim; and apart
  from these \<open>src\<close> values the tree is unchanged.
\<close>

theorem rewriter_rewrites_media_images:
  "\<exists>content'.
     replaceUrlsInTipTapJson base (Some (Block ty at (Some content))) m =
       Some (Block ty at (Some content')) \<and>
     map blank_srcs content' = map blank_srcs content \<and>
     concat (map image_srcs content') =
       map (\<lambda>s. if startsWith s ''/wp-content/uploads/'' then
                   (case cache_get (base @ s) m of
                      Some uuid \<Rightarrow> if uuid \<noteq> [] then ''/assets/'' @ uuid else s
                    | None \<Rightarrow> s)
                 else if js_includes s ''/wp-content/uploads/'' then
                   (case cache_get s m of
                      Some uuid \<Rightarrow> if uuid \<noteq> [] then ''/assets/'' @ uuid else s
                    | None \<Rightarrow> s)
                 else s)
           (concat (map image_srcs content))"
proof -
  let ?c = "map (processNode base m) content"
  have 1: "replaceUrlsInTipTapJson base (Some (Block ty at (Some content))) m =
       Some (Block ty at (Some ?c))"
    by (simp add: replaceUrlsInTipTapJson_def)
  have 2: "map blank_srcs ?c = map blank_srcs content"
    by (simp add: processNode_blank)
  have 3: "concat (map image_srcs ?c) = map (rewritten_src base m) (concat (map image_srcs content))"
    by (simp add: processNode_srcs map_concat comp_def)
  have 4: "rewritten_src base m =
       (\<lambda>s. if startsWith s ''/wp-content/uploads/'' then
                   (case cache_get (base @ s) m of
                      Some uuid \<Rightarrow> if uuid \<noteq> [] then ''/assets/'' @ uuid else s
                    | None \<Rightarrow> s)
                 else if js_includes s ''/wp-content/uploads/'' then
                   (case cache_get s m of
                      Some uuid \<Rightarrow> if uuid \<noteq> [] then ''/assets/'' @ uuid else s
                    | None \<Rightarrow> s)
                 else s)"
    by (rule ext) (simp add: rewritten_src_def)
  show ?thesis
    using 1 2 3 unfolding 4 by blast
qed

theorem rewriter_rewrites_media_images_witness:
  "replaceUrlsInTipTapJson ''https://example.com''
     (Some (ex_doc [''https://example.com/wp-content/uploads/a.jpg'', ''/wp-content/uploads/a.jpg'',
                    ''https://example.com/wp-content/uploads/b.jpg'']))
     [(''https://example.com/wp-content/uploads/a.jpg'', ''uuid-1'')] =
   Some (ex_doc [''/assets/uuid-1'', ''/assets/uuid-1'', ''https://example.com/wp-content/uploads/b.jpg''])"
proof -
  let ?m = "[(''https://example.com/wp-content/uploads/a.jpg'', ''uuid-1'')]"
  let ?in = "[ex_image ''https://example.com/wp-content/uploads/a.jpg'', ex_image ''/wp-content/uploads/a.jpg'',
              ex_image ''https://example.com/wp-content/uploads/b.jpg'']"
  obtain c where c: "replaceUrlsInTipTapJson ''https://example.com''
       (Some (Block ''doc'' None (Some [Block ''blockquote'' None (Some ?in)]))) ?m =
       Some (Block ''doc'' None (Some c))"
    using rewriter_rewrites_media_images [of "''https://example.com''" "''doc''" None
        "[Block ''blockquote'' None (Some ?in)]" ?m]
    by blast
  have "replaceUrlsInTipTapJson ''https://example.com''
       (Some (Block ''doc'' None (Some [Block ''blockquote'' None (Some ?in)]))) ?m =
     Some (ex_doc [''/assets/uuid-1'', ''/assets/uuid-1'', ''https://example.com/wp-content/uploads/b.jpg''])"
    by code_simp
  then show ?thesis using c by (simp add: ex_doc_def)
qed

text \<open>
  An image whose \<open>src\<close> is exactly a key of the map is left as it is when the URL does not
  contain \<open>/wp-content/uploads/\<close>.
\<close>

theorem rewriter_skips_other_urls_counterexample:
  "cache_get ''https://cdn.example.com/a.jpg'' [(''https://cdn.example.com/a.jpg'', ''uuid-1'')] =
     Some ''uuid-1'' \<and>
   replaceUrlsInTipTapJson ''https://example.com''
     (Some (ex_doc [''https://cdn.example.com/a.jpg'']))
     [(''https://cdn.example.com/a.jpg'', ''uuid-1'')] =
   Some (ex_doc [''https://cdn.example.com/a.jpg''])"
  by code_simp

section \<open>Properties of the CSV reader\<close>










lemma joined_snoc: "joined f (ls @ [l]) = joined f ls @ [CHR 0x0A] @ l"
  by (simp add: joined_def)





section \<open>Properties of the matcher\<close>

lemma bt_keeps_group:
  "bt ci k s c = Some (rest, c') \<Longrightarrow> sum_list (map (ndefs n) k) = 0 \<Longrightarrow>
   map_of c' n = map_of c n"
proof (induction ci k s c arbitrary: rest c' rule: bt.induct)
  case (1 ci s c)
  then show ?case by (simp add: bt.simps(1))
next
  case (2 ci a k s c)
  have e: "bt ci (One a # k) s c =
     (case s of [] \<Rightarrow> None | x # xs \<Rightarrow> if amatch ci a x then bt ci k xs c else None)"
    by (rule bt.simps)
  show ?case using 2 unfolding e by (auto split: list.splits if_splits)
next
  case (3 ci k s c)
  have e: "bt ci (Lit [] # k) s c = bt ci k s c" by (rule bt.simps)
  show ?case using 3 unfolding e by simp
next
  case (4 ci p ps k s c)
  have e: "bt ci (Lit (p # ps) # k) s c =
     (case s of [] \<Rightarrow> None
      | x # xs \<Rightarrow> if canon ci p = canon ci x then bt ci (Lit ps # k) xs c else None)"
    by (rule bt.simps)
  show ?case using 4 unfolding e by (auto split: list.splits if_splits)
next
  case (5 ci a k s c)
  have e: "bt ci (Star a # k) s c =
     (case s of
        [] \<Rightarrow> bt ci k s c
      | x # xs \<Rightarrow>
          if amatch ci a x then
            (case bt ci (Star a # k) xs c of Some r \<Rightarrow> Some r | None \<Rightarrow> bt ci k s c)
          else bt ci k s c)"
    by (rule bt.simps)
  show ?case using 5 unfolding e by (auto split: list.splits if_splits option.splits)
next
  case (6 ci a k s c)
  have e: "bt ci (Plus a # k) s c = bt ci (One a # Star a # k) s c" by (rule bt.simps)
  show ?case using 6 unfolding e by simp
next
  case (7 ci a k s c)
  have e: "bt ci (Lazy a # k) s c =
     (case bt ci k s c of
        Some r \<Rightarrow> Some r
      | None \<Rightarrow>
          (case s of [] \<Rightarrow> None
           | x # xs \<Rightarrow> if amatch ci a x then bt ci (Lazy a # k) xs c else None))"
    by (rule bt.simps)
  show ?case using 7 unfolding e by (auto split: list.splits if_splits option.splits)
next
  case (8 ci r k s c)
  have e: "bt ci (Opt r # k) s c =
     (case bt ci (r # k) s c of Some x \<Rightarrow> Some x | None \<Rightarrow> bt ci k s c)"
    by (rule bt.simps)
  show ?case using 8 unfolding e by (auto split: option.splits)
next
  case (9 ci r1 r2 k s c)
  have e: "bt ci (Alt r1 r2 # k) s c =
     (case bt ci (r1 # k) s c of Some x \<Rightarrow> Some x | None \<Rightarrow> bt ci (r2 # k) s c)"
    by (rule bt.simps)
  show ?case using 9 unfolding e by (auto split: option.splits)
next
  case (10 ci r1 r2 k s c)
  have e: "bt ci (Seq r1 r2 # k) s c = bt ci (r1 # r2 # k) s c" by (rule bt.simps)
  show ?case using 10 unfolding e by simp
next
  case (11 ci n' r k s c)
  have e: "bt ci (Grp n' r # k) s c = bt ci (r # GEnd n' s # k) s c" by (rule bt.simps)
  show ?case using 11 unfolding e by (auto split: if_splits)
next
  case (12 ci n' s0 k s c)
  have e: "bt ci (GEnd n' s0 # k) s c = bt ci k s ((n', take (length s0 - length s) s0) # c)"
    by (rule bt.simps)
  show ?case using 12 unfolding e by (auto split: if_splits)
next
  case (13 ci n' k s c)
  have e: "bt ci (Ref n' # k) s c =
     (case map_of c n' of
        None \<Rightarrow> bt ci k s c
      | Some t \<Rightarrow>
          if length t \<le> length s \<and> map (canon ci) t = map (canon ci) (take (length t) s)
          then bt ci k (drop (length t) s) c else None)"
    by (rule bt.simps)
  show ?case using 13 unfolding e by (auto split: option.splits if_splits)
qed



lemma bt_consumes:
  "bt ci k s c = Some (rest, c') \<Longrightarrow> length rest + sum_list (map minlen k) \<le> length s"
proof (induction ci k s c arbitrary: rest c' rule: bt.induct)
  case (1 ci s c)
  then show ?case by (simp add: bt.simps(1))
next
  case (2 ci a k s c)
  have e: "bt ci (One a # k) s c =
     (case s of [] \<Rightarrow> None | x # xs \<Rightarrow> if amatch ci a x then bt ci k xs c else None)"
    by (rule bt.simps)
  show ?case using 2 unfolding e by (fastforce split: list.splits if_splits)
next
  case (3 ci k s c)
  have e: "bt ci (Lit [] # k) s c = bt ci k s c" by (rule bt.simps)
  show ?case using 3 unfolding e by simp
next
  case (4 ci p ps k s c)
  have e: "bt ci (Lit (p # ps) # k) s c =
     (case s of [] \<Rightarrow> None
      | x # xs \<Rightarrow> if canon ci p = canon ci x then bt ci (Lit ps # k) xs c else None)"
    by (rule bt.simps)
  show ?case using 4 unfolding e by (fastforce split: list.splits if_splits)
next
  case (5 ci a k s c)
  have e: "bt ci (Star a # k) s c =
     (case s of
        [] \<Rightarrow> bt ci k s c
      | x # xs \<Rightarrow>
          if amatch ci a x then
            (case bt ci (Star a # k) xs c of Some r \<Rightarrow> Some r | None \<Rightarrow> bt ci k s c)
          else bt ci k s c)"
    by (rule bt.simps)
  show ?case using 5 unfolding e by (fastforce split: list.splits if_splits option.splits)
next
  case (6 ci a k s c)
  have e: "bt ci (Plus a # k) s c = bt ci (One a # Star a # k) s c" by (rule bt.simps)
  show ?case using 6 unfolding e by simp
next
  case (7 ci a k s c)
  have e: "bt ci (Lazy a # k) s c =
     (case bt ci k s c of
        Some r \<Rightarrow> Some r
      | None \<Rightarrow>
          (case s of [] \<Rightarrow> None
           | x # xs \<Rightarrow> if amatch ci a x then bt ci (Lazy a # k) xs c else None))"
    by (rule bt.simps)
  show ?case using 7 unfolding e by (fastforce split: list.splits if_splits option.splits)
next
  case (8 ci r k s c)
  have e: "bt ci (Opt r # k) s c =
     (case bt ci (r # k) s c of Some x \<Rightarrow> Some x | None \<Rightarrow> bt ci k s c)"
    by (rule bt.simps)
  show ?case using 8 unfolding e by (fastforce split: option.splits)
next
  case (9 ci r1 r2 k s c)
  have e: "bt ci (Alt r1 r2 # k) s c =
     (case bt ci (r1 # k) s c of Some x \<Rightarrow> Some x | None \<Rightarrow> bt ci (r2 # k) s c)"
    by (rule bt.simps)
  show ?case using 9 unfolding e by (fastforce split: option.splits)
next
  case (10 ci r1 r2 k s c)
  have e: "bt ci (Seq r1 r2 # k) s c = bt ci (r1 # r2 # k) s c" by (rule bt.simps)
  show ?case using 10 unfolding e by (simp add: add.assoc)
next
  case (11 ci n' r k s c)
  have e: "bt ci (Grp n' r # k) s c = bt ci (r # GEnd n' s # k) s c" by (rule bt.simps)
  show ?case using 11 unfolding e by simp
next
  case (12 ci n' s0 k s c)
  have e: "bt ci (GEnd n' s0 # k) s c = bt ci k s ((n', take (length s0 - length s) s0) # c)"
    by (rule bt.simps)
  show ?case using 12 unfolding e by simp
next
  case (13 ci n' k s c)
  have e: "bt ci (Ref n' # k) s c =
     (case map_of c n' of
        None \<Rightarrow> bt ci k s c
      | Some t \<Rightarrow>
          if length t \<le> length s \<and> map (canon ci) t = map (canon ci) (take (length t) s)
          then bt ci k (drop (length t) s) c else None)"
    by (rule bt.simps)
  show ?case using 13 unfolding e by (fastforce split: option.splits if_splits)
qed

lemma search_progress:
  "0 < minlen r \<Longrightarrow> search ci r pre s = Some m \<Longrightarrow> length (after m) < length s"
proof (induction s arbitrary: pre)
  case Nil
  then obtain rest c where "bt ci [r] [] [] = Some (rest, c)"
    by (auto split: option.splits)
  from bt_consumes [OF this] show ?case using Nil.prems(1) by simp
next
  case (Cons x xs)
  show ?case
  proof (cases "bt ci [r] (x # xs) []")
    case None
    then have "length (after m) < length xs" using Cons by simp
    then show ?thesis by simp
  next
    case (Some a)
    obtain rest c where a: "a = (rest, c)" by (cases a)
    have "length rest + sum_list (map minlen [r]) \<le> length (x # xs)"
      using bt_consumes Some a by blast
    then show ?thesis using Cons.prems Some a by auto
  qed
qed

text \<open>
  For an expression that cannot match the empty string the scan is the \<open>exec\<close> loop:
  every match is followed by the search in the text after it.
\<close>

lemma matchAll_loop:
  "0 < minlen r \<Longrightarrow>
   matchAll ci r s =
     (case search ci r [] s of
        None \<Rightarrow> ([], s)
      | Some m \<Rightarrow> (case matchAll ci r (after m) of (ms, t) \<Rightarrow> (m # ms, t)))"
  by (subst matchAll.simps) (auto split: option.splits dest: search_progress)

lemma script_patterns_nonempty:
  "0 < minlen srcPattern" "0 < minlen relativePattern" "0 < minlen localhostPattern"
  "0 < minlen hrefPattern" "0 < minlen captionPattern" "0 < minlen directPathPattern"
  "0 < minlen (Lit [dq, dq])"
  by (simp_all add: srcPattern_def relativePattern_def localhostPattern_def hrefPattern_def
      captionPattern_def directPathPattern_def fullUrl_def)

section \<open>Properties of the content extractor\<close>

lemma bt_Lit_elim:
  "bt ci (Lit p # k) s c = Some r \<Longrightarrow>
   \<exists>x s'. s = x @ s' \<and> map (canon ci) x = map (canon ci) p \<and> bt ci k s' c = Some r"
proof (induction p arbitrary: s)
  case Nil
  then show ?case by (simp add: bt.simps(3))
next
  case (Cons a p)
  have e: "bt ci (Lit (a # p) # k) s c =
     (case s of [] \<Rightarrow> None
      | x # xs \<Rightarrow> if canon ci a = canon ci x then bt ci (Lit p # k) xs c else None)"
    by (rule bt.simps)
  from Cons.prems obtain x xs where s: "s = x # xs" and hit: "canon ci a = canon ci x"
    and go: "bt ci (Lit p # k) xs c = Some r"
    unfolding e by (auto split: list.splits if_splits)
  from Cons.IH [OF go] obtain y s' where "xs = y @ s'" "map (canon ci) y = map (canon ci) p"
    "bt ci k s' c = Some r"
    by blast
  then show ?case using s hit
    by (intro exI [of _ "x # y"] exI [of _ s']) simp
qed








lemma search_after: "search ci r pre s = Some m \<Longrightarrow> length (after m) \<le> length s"
proof (induction s arbitrary: pre)
  case Nil
  then show ?case by (auto split: option.splits)
next
  case (Cons x xs)
  show ?case
  proof (cases "bt ci [r] (x # xs) []")
    case None
    then have "length (after m) \<le> length xs" using Cons by simp
    then show ?thesis by simp
  next
    case (Some a)
    obtain rest c where a: "a = (rest, c)" by (cases a)
    have "length rest + sum_list (map minlen [r]) \<le> length (x # xs)"
      using bt_consumes Some a by blast
    then show ?thesis using Cons.prems Some a by auto
  qed
qed













section \<open>Properties of the document converter\<close>

lemma runs_merged_snoc:
  "runs_merged (xs @ [x]) \<longleftrightarrow>
     runs_merged xs \<and> run_text x \<noteq> [] \<and> (xs \<noteq> [] \<longrightarrow> run_marks (last xs) \<noteq> run_marks x)"
proof (induction xs rule: runs_merged.induct)
  case 1
  show ?case by simp
next
  case (2 y)
  show ?case by auto
next
  case (3 a b r)
  then show ?case by auto
qed

lemma runs_merged_butlast: "runs_merged xs \<Longrightarrow> runs_merged (butlast xs)"
proof (induction xs rule: rev_induct)
  case Nil
  show ?case by simp
next
  case (snoc x xs)
  then show ?case by (simp add: runs_merged_snoc)
qed

lemma last_butlast_marks:
  "runs_merged xs \<Longrightarrow> xs \<noteq> [] \<Longrightarrow> butlast xs \<noteq> [] \<Longrightarrow>
   run_marks (last (butlast xs)) \<noteq> run_marks (last xs)"
proof (induction xs rule: rev_induct)
  case Nil
  then show ?case by simp
next
  case (snoc x xs)
  then show ?case by (simp add: runs_merged_snoc)
qed

lemma cleanup_merged: "runs_merged cleaned \<Longrightarrow> runs_merged (cleanup cleaned ns)"
proof (induction ns arbitrary: cleaned)
  case Nil
  then show ?case by simp
next
  case (Cons n ns)
  show ?case
  proof (cases "run_text n = []")
    case True
    then show ?thesis using Cons by simp
  next
    case False
    show ?thesis
    proof (cases "cleaned \<noteq> [] \<and> run_marks (last cleaned) = run_marks n")
      case True
      let ?m = "TextRun (run_text (last cleaned) @ run_text n) (run_marks (last cleaned))"
      have "runs_merged (butlast cleaned @ [?m])"
        using Cons.prems True False
          runs_merged_butlast [of cleaned] last_butlast_marks [of cleaned]
        by (simp add: runs_merged_snoc)
      then have "runs_merged (cleanup (butlast cleaned @ [?m]) ns)"
        by (rule Cons.IH)
      then show ?thesis using True False by simp
    next
      case no: False
      have "runs_merged (cleaned @ [n])"
        using Cons.prems no False by (auto simp: runs_merged_snoc)
      then have "runs_merged (cleanup (cleaned @ [n]) ns)"
        by (rule Cons.IH)
      then show ?thesis using no False by auto
    qed
  qed
qed

lemma cleanup_text:
  "concat (map run_text (cleanup cleaned ns)) =
   concat (map run_text cleaned) @ concat (map run_text ns)"
proof (induction ns arbitrary: cleaned)
  case Nil
  show ?case by simp
next
  case (Cons n ns)
  show ?case
  proof (cases "run_text n = []")
    case True
    then show ?thesis using Cons by simp
  next
    case False
    show ?thesis
    proof (cases "cleaned \<noteq> [] \<and> run_marks (last cleaned) = run_marks n")
      case True
      then have c: "cleaned = butlast cleaned @ [last cleaned]" by simp
      have "concat (map run_text cleaned) =
            concat (map run_text (butlast cleaned)) @ run_text (last cleaned)"
        by (subst c) simp
      then show ?thesis using True False Cons by simp
    next
      case no: False
      then show ?thesis using False Cons by auto
    qed
  qed
qed

lemma parseInlineContent_merged: "runs_merged (parseInlineContent g html)"
  by (simp add: parseInlineContent_def cleanup_merged)

lemma replaceAll_nomatch: "search ci r [] s = None \<Longrightarrow> replaceAll ci r new s = s"
  by (simp add: replaceAll_def matchAll.simps)

lemma ex_inline:
  "parseInlineContent g ''<strong>Hi</strong> there'' =
     [TextRun ''Hi'' [Mark ''bold''], TextRun '' there'' []]"
proof -
  let ?s = "''<strong>Hi</strong> there''"
  have inner: "replaceAll False (Lit ''&#8221;'') [dq]
        (replaceAll False (Lit ''&#8220;'') [dq]
         (replaceAll False (Lit ''&#8217;'') [sq]
          (replaceAll False (Lit ''&quot;'') [dq]
           (replaceAll False (Lit ''&gt;'') ''>''
            (replaceAll False (Lit ''&lt;'') ''<''
             (replaceAll False (Lit ''&amp;'') ''&''
              (replaceAll False (Lit ''&nbsp;'') '' ''
               (replaceAll True brTag [CHR 0x0A] ?s)))))))) = ?s"
    by code_simp
  have n1: "search False (Lit ''&#8211;'') [] ?s = None" by code_simp
  have n2: "search False (Lit ''&#8230;'') [] ?s = None" by code_simp
  have d: "decodeEntities g ?s = ?s"
    unfolding decodeEntities_def inner
    by (simp only: replaceAll_nomatch [OF n1] replaceAll_nomatch [OF n2])
  have p: "cleanup [] (parseWithMarks ?s []) =
     [TextRun ''Hi'' [Mark ''bold''], TextRun '' there'' []]"
    by code_simp
  show ?thesis
    unfolding parseInlineContent_def d using p by simp
qed

lemma ex_convert:
  "convertBody g rec ex_paragraph =
     Some (Some (Block ''doc'' None
       (Some [Block ''paragraph'' (Some (ParagraphAttrs ''left''))
                (Some [TextRun ''Hi'' [Mark ''bold''], TextRun '' there'' []])])))"
proof -
  let ?m = "\<lparr>skipped = [], matched = ex_paragraph,
             groups = [(2, ''<strong>Hi</strong> there''), (1, ''p'')], after = []\<rparr>"
  have ne: "ex_paragraph \<noteq> []" by (simp add: ex_paragraph_def)
  have pre: "preprocessWordPressContent ex_paragraph = ex_paragraph" by code_simp
  have ms: "matchAll True blockPattern ex_paragraph = ([?m], [])" by code_simp
  have tag: "toLowerCase (if gstr ?m 1 \<noteq> [] then gstr ?m 1 else gstr ?m 3) = ''p''" by code_simp
  have inner: "gstr ?m 2 = ''<strong>Hi</strong> there''" by code_simp
  have before: "trim (skipped ?m) = []" by code_simp
  have noimg: "exec True imgTag ''<strong>Hi</strong> there'' = None" by code_simp
  have t: "trim [] = []" by code_simp
  have block: "blockNodes g rec ''p'' ''<strong>Hi</strong> there'' =
      Some [createParagraphNode g ''<strong>Hi</strong> there'']"
    by (simp add: blockNodes_def noimg)
  have node: "matchNodes g rec ?m = Some [createParagraphNode g ''<strong>Hi</strong> there'']"
    unfolding matchNodes_def Let_def tag inner before block by simp
  have para: "createParagraphNode g ''<strong>Hi</strong> there'' =
      Block ''paragraph'' (Some (ParagraphAttrs ''left''))
        (Some [TextRun ''Hi'' [Mark ''bold''], TextRun '' there'' []])"
    by (simp add: createParagraphNode_def ex_inline)
  show ?thesis
    unfolding convertBody_def Let_def pre ms
    using ne node para t by simp
qed

text \<open>
  C8. For \<open><p><strong>Hi</strong> there</p>\<close> the converter returns, at every depth bound
  from one on, the document whose content is one paragraph with exactly the two runs
  \<open>Hi\<close> with the mark bold and \<open> there\<close> without marks. For every input the inline
  content has no run with empty text and no two neighbouring runs with the same marks,
  and the clean-up loses no text.
\<close>

theorem converter_merges_runs:
  "convertHtmlToTipTapJson (Suc depth) g ex_paragraph =
     Some (Some (Block ''doc'' None
       (Some [Block ''paragraph'' (Some (ParagraphAttrs ''left''))
                (Some [TextRun ''Hi'' [Mark ''bold''], TextRun '' there'' []])]))) \<and>
   runs_merged (parseInlineContent g html) \<and>
   runs_merged (cleanup [] ns) \<and>
   concat (map run_text (cleanup [] ns)) = concat (map run_text ns)"
  using ex_convert [of g "convertHtmlToTipTapJson depth g"]
    parseInlineContent_merged [of g html] cleanup_merged [of "[]" ns] cleanup_text [of "[]" ns]
  by simp

section \<open>The recursion of the inline parser\<close>

lemma bt_capture_bound:
  "bt ci k s c = Some (rest, c') \<Longrightarrow> length s \<le> N \<Longrightarrow> list_all (gbound N) k \<Longrightarrow>
   list_all (\<lambda>p. length (snd p) \<le> N) c \<Longrightarrow> list_all (\<lambda>p. length (snd p) \<le> N) c'"
proof (induction ci k s c arbitrary: rest c' rule: bt.induct)
  case (1 ci s c)
  then show ?case by (simp add: bt.simps(1))
next
  case (2 ci a k s c)
  have e: "bt ci (One a # k) s c =
     (case s of [] \<Rightarrow> None | x # xs \<Rightarrow> if amatch ci a x then bt ci k xs c else None)"
    by (rule bt.simps)
  show ?case using 2 unfolding e by (auto split: list.splits if_splits)
next
  case (3 ci k s c)
  have e: "bt ci (Lit [] # k) s c = bt ci k s c" by (rule bt.simps)
  show ?case using 3 unfolding e by simp
next
  case (4 ci p ps k s c)
  have e: "bt ci (Lit (p # ps) # k) s c =
     (case s of [] \<Rightarrow> None
      | x # xs \<Rightarrow> if canon ci p = canon ci x then bt ci (Lit ps # k) xs c else None)"
    by (rule bt.simps)
  show ?case using 4 unfolding e by (auto split: list.splits if_splits)
next
  case (5 ci a k s c)
  have e: "bt ci (Star a # k) s c =
     (case s of
        [] \<Rightarrow> bt ci k s c
      | x # xs \<Rightarrow>
          if amatch ci a x then
            (case bt ci (Star a # k) xs c of Some r \<Rightarrow> Some r | None \<Rightarrow> bt ci k s c)
          else bt ci k s c)"
    by (rule bt.simps)
  show ?case using 5 unfolding e by (auto split: list.splits if_splits option.splits)
next
  case (6 ci a k s c)
  have e: "bt ci (Plus a # k) s c = bt ci (One a # Star a # k) s c" by (rule bt.simps)
  show ?case using 6 unfolding e by simp
next
  case (7 ci a k s c)
  have e: "bt ci (Lazy a # k) s c =
     (case bt ci k s c of
        Some r \<Rightarrow> Some r
      | None \<Rightarrow>
          (case s of [] \<Rightarrow> None
           | x # xs \<Rightarrow> if amatch ci a x then bt ci (Lazy a # k) xs c else None))"
    by (rule bt.simps)
  show ?case using 7 unfolding e by (auto split: list.splits if_splits option.splits)
next
  case (8 ci r k s c)
  have e: "bt ci (Opt r # k) s c =
     (case bt ci (r # k) s c of Some x \<Rightarrow> Some x | None \<Rightarrow> bt ci k s c)"
    by (rule bt.simps)
  show ?case using 8 unfolding e by (auto split: option.splits)
next
  case (9 ci r1 r2 k s c)
  have e: "bt ci (Alt r1 r2 # k) s c =
     (case bt ci (r1 # k) s c of Some x \<Rightarrow> Some x | None \<Rightarrow> bt ci (r2 # k) s c)"
    by (rule bt.simps)
  show ?case using 9 unfolding e by (auto split: option.splits)
next
  case (10 ci r1 r2 k s c)
  have e: "bt ci (Seq r1 r2 # k) s c = bt ci (r1 # r2 # k) s c" by (rule bt.simps)
  show ?case using 10 unfolding e by simp
next
  case (11 ci n' r k s c)
  have e: "bt ci (Grp n' r # k) s c = bt ci (r # GEnd n' s # k) s c" by (rule bt.simps)
  show ?case using 11 unfolding e by simp
next
  case (12 ci n' s0 k s c)
  have e: "bt ci (GEnd n' s0 # k) s c = bt ci k s ((n', take (length s0 - length s) s0) # c)"
    by (rule bt.simps)
  from "12.prems"(1) have go: "bt ci k s ((n', take (length s0 - length s) s0) # c) = Some (rest, c')"
    unfolding e .
  have k: "list_all (gbound N) k" and s0: "length s0 \<le> N"
    using "12.prems"(3) by simp_all
  have c: "list_all (\<lambda>p. length (snd p) \<le> N) ((n', take (length s0 - length s) s0) # c)"
    using "12.prems"(4) s0 by simp
  show ?case by (rule "12.IH" [OF go "12.prems"(2) k c])
next
  case (13 ci n' k s c)
  have e: "bt ci (Ref n' # k) s c =
     (case map_of c n' of
        None \<Rightarrow> bt ci k s c
      | Some t \<Rightarrow>
          if length t \<le> length s \<and> map (canon ci) t = map (canon ci) (take (length t) s)
          then bt ci k (drop (length t) s) c else None)"
    by (rule bt.simps)
  show ?case using 13 unfolding e by (auto split: option.splits if_splits)
qed

lemma search_bt_within:
  "search ci r pre s = Some m \<Longrightarrow>
   \<exists>s' rest. bt ci [r] s' [] = Some (rest, groups m) \<and> length s' \<le> length s"
proof (induction s arbitrary: pre)
  case Nil
  then obtain rest c where "bt ci [r] [] [] = Some (rest, c)" "groups m = c"
    by (auto split: option.splits)
  then show ?case by auto
next
  case (Cons x xs)
  show ?case
  proof (cases "bt ci [r] (x # xs) []")
    case None
    then have "search ci r (pre @ [x]) xs = Some m" using Cons.prems by simp
    from Cons.IH [OF this] obtain s' rest where
      "bt ci [r] s' [] = Some (rest, groups m)" "length s' \<le> length xs"
      by blast
    then show ?thesis by (intro exI [of _ s'] exI [of _ rest]) simp
  next
    case (Some a)
    obtain rest c where a: "a = (rest, c)" by (cases a)
    have "groups m = c" using Cons.prems Some a by auto
    then show ?thesis using Some a by (intro exI [of _ "x # xs"] exI [of _ rest]) simp
  qed
qed

lemma matchAll_bt_within:
  "m \<in> set (fst (matchAll ci r s)) \<Longrightarrow>
   \<exists>s' rest. bt ci [r] s' [] = Some (rest, groups m) \<and> length s' \<le> length s"
proof (induction ci r s rule: matchAll.induct)
  case (1 ci r s)
  show ?case
  proof (cases "search ci r [] s")
    case None
    then show ?thesis using "1.prems" by (subst (asm) matchAll.simps) simp
  next
    case (Some m0)
    show ?thesis
    proof (cases "length (after m0) < length s")
      case False
      then have "m = m0" using "1.prems" Some by (subst (asm) matchAll.simps) simp
      then show ?thesis using search_bt_within [OF Some] by simp
    next
      case True
      then have "m = m0 \<or> m \<in> set (fst (matchAll ci r (after m0)))"
        using "1.prems" Some by (subst (asm) matchAll.simps) (auto split: prod.splits)
      then show ?thesis
      proof
        assume "m = m0"
        then show ?thesis using search_bt_within [OF Some] by simp
      next
        assume "m \<in> set (fst (matchAll ci r (after m0)))"
        from "1.IH" [OF Some True this] obtain s' rest where
          "bt ci [r] s' [] = Some (rest, groups m)" "length s' \<le> length (after m0)"
          by blast
        then show ?thesis using True by (intro exI [of _ s'] exI [of _ rest]) simp
      qed
    qed
  qed
qed

text \<open>The inner text of an inline tag is shorter than the string in which it was found.\<close>

lemma inline_inner_shorter:
  assumes "m \<in> set (fst (matchAll True inlinePattern s))" "group m 2 = Some innerHtml"
  shows "length innerHtml < length s"
proof -
  let ?tags = "alts [Lit ''a'', Lit ''strong'', Lit ''b'', Lit ''em'', Lit ''i'', Lit ''span'',
                     Lit ''sup'', Lit ''sub'', Lit ''cite'', Lit ''u'', Lit ''s'', Lit ''code'']"
  let ?R = "seqs [Grp 1 ?tags, Star notgt, Lit ''>'', Grp 2 (Lazy AAny), Lit ''</'', Ref 1, Lit ''>'']"
  let ?B = "Alt (Grp 3 (Plus (ANCls [C CHR ''<'']))) anyTag"
  have p: "inlinePattern = Alt (Seq (Lit ''<'') ?R) ?B"
    by (simp add: inlinePattern_def)
  from matchAll_bt_within [OF assms(1)] obtain s' rest where
    b: "bt True [inlinePattern] s' [] = Some (rest, groups m)" and le: "length s' \<le> length s"
    by blast
  have e: "bt True [Alt (Seq (Lit ''<'') ?R) ?B] s' [] =
     (case bt True [Seq (Lit ''<'') ?R] s' [] of Some x \<Rightarrow> Some x | None \<Rightarrow> bt True [?B] s' [])"
    by (rule bt.simps)
  have cap: "map_of (groups m) 2 = Some innerHtml"
    using assms(2) by (simp add: group_def)
  show ?thesis
  proof (cases "bt True [Seq (Lit ''<'') ?R] s' []")
    case None
    then have "bt True [?B] s' [] = Some (rest, groups m)"
      using b unfolding p e by simp
    from bt_keeps_group [OF this, of 2] have "map_of (groups m) 2 = None"
      by (simp add: anyTag_def)
    then show ?thesis using cap by simp
  next
    case (Some a)
    then have "bt True [Seq (Lit ''<'') ?R] s' [] = Some (rest, groups m)"
      using b unfolding p e by simp
    then have "bt True [Lit ''<'', ?R] s' [] = Some (rest, groups m)"
      by (simp add: bt.simps(10))
    from bt_Lit_elim [OF this] obtain x s'' where
      s': "s' = x @ s''" and x: "map (canon True) x = map (canon True) ''<''"
      and go: "bt True [?R] s'' [] = Some (rest, groups m)"
      by blast
    have "length (map (canon True) x) = 1" unfolding x by simp
    then have lx: "length x = 1" by simp
    have "list_all (\<lambda>p. length (snd p) \<le> length s'') (groups m)"
      by (rule bt_capture_bound [OF go]) (simp_all add: notgt_def)
    moreover have "(2, innerHtml) \<in> set (groups m)"
      using cap by (rule map_of_SomeD)
    ultimately have "length innerHtml \<le> length s''"
      by (auto simp: list_all_iff)
    then show ?thesis using s' lx le by simp
  qed
qed

text \<open>
  Hence the test on the lengths in \<open>parseWithMarks\<close> never fails: the function satisfies
  the equation without it.
\<close>

lemma parseWithMarks_unfold:
  "parseWithMarks htmlStr inheritedMarks =
     (if htmlStr = [] then []
      else concat (map (\<lambda>m.
             case group m 3 of
               Some plainText \<Rightarrow> (if plainText \<noteq> [] then [TextRun plainText inheritedMarks] else [])
             | None \<Rightarrow>
                 (case (group m 1, group m 2) of
                    (Some tag, Some innerHtml) \<Rightarrow>
                      if tag \<noteq> []
                      then parseWithMarks innerHtml
                             (inheritedMarks @ tagMarks (toLowerCase tag) (matched m))
                      else []
                  | _ \<Rightarrow> []))
           (fst (matchAll True inlinePattern htmlStr))))"
proof (cases "htmlStr = []")
  case True
  then show ?thesis by (simp add: parseWithMarks.simps)
next
  case False
  show ?thesis
    apply (subst parseWithMarks.simps)
    apply (simp only: False if_False)
    apply (rule arg_cong [where f = concat])
    apply (rule map_cong [OF refl])
    apply (auto split: option.splits dest: inline_inner_shorter)
    done
qed

section \<open>Properties of the post migrator\<close>

lemma track_success_migrated:
  "isAlreadyMigrated t oid (migrationDb (track b t oid nid ''success'' sdata err w))"
proof -
  obtain r where r: "r \<in> set (data (trackMigration (clock w) b t oid nid ''success'' sdata err (migrationDb w)))"
      "same_key t oid b r" "status r = ''success''"
    using trackMigration_has_key [of "clock w" b t oid nid "''success''" sdata err "migrationDb w"]
    by blast
  then have "r \<in> set (success_rows t oid (trackMigration (clock w) b t oid nid ''success'' sdata err (migrationDb w)))"
    by (simp add: success_rows_def same_key_def)
  then have "success_rows t oid (trackMigration (clock w) b t oid nid ''success'' sdata err (migrationDb w)) \<noteq> []"
    by (metis empty_iff empty_set)
  then show ?thesis
    by (simp add: isAlreadyMigrated_def track_def)
qed

lemma success_shape:
  assumes "(case c of
              None \<Rightarrow> None
            | Some doc \<Rightarrow>
                (case f doc of
                   (Inr x, w2) \<Rightarrow> Some (Success p k, h doc x w2)
                 | (Inl m, w2) \<Rightarrow> Some (Failed p m, e doc m w2))) = Some (Success pid n, w')"
  shows "pid = p \<and> (\<exists>doc x w2. w' = h doc x w2)"
  using assms by (auto split: option.splits prod.splits sum.splits)

lemma migrate_success_tracked:
  assumes "migrateSingleWpPost rem orc cfg g lang depth batchId post mapping w =
             Some (Success pid n, w')"
  shows "pid = obj_get post ''ID'' \<and>
         isAlreadyMigrated ''post'' (string_of (obj_get post ''ID'')) (migrationDb w')"
proof (cases "isAlreadyMigrated ''post'' (string_of (obj_get post ''ID'')) (migrationDb w)")
  case True
  have "migrateSingleWpPost rem orc cfg g lang depth batchId post mapping w =
     Some (Skipped (obj_get post ''ID''), w)"
    unfolding migrateSingleWpPost_def Let_def using True by (rule if_P)
  then show ?thesis using assms by simp
next
  case False
  note a = assms [unfolded migrateSingleWpPost_def Let_def if_not_P [OF False]]
  from success_shape [OF a] obtain doc x w2 where
    "pid = obj_get post ''ID''" and w': "w' = track batchId ''post'' (string_of (obj_get post ''ID''))
        (str_val (obj_get post ''ID'')) ''success'' (Some (x)) None w2"
    by blast
  then show ?thesis
    by (simp add: track_success_migrated)
qed

text \<open>
  C2. A post whose key \<open>('post', String(ID))\<close> has a success record in the tracking store
  is skipped: the migrator returns \<open>skipped\<close> with the post's identifier and leaves the
  whole state as it was, so that no row of the target database is written and no media
  import is made. In particular a second run on a post that the first run migrated with
  success is skipped, whatever the endpoint, the database and the configuration then are.
\<close>

theorem migrated_post_skipped:
  "(isAlreadyMigrated ''post'' (string_of (obj_get post ''ID'')) (migrationDb w) \<longrightarrow>
      migrateSingleWpPost rem orc cfg g lang depth batchId post mapping w =
        Some (Skipped (obj_get post ''ID''), w)) \<and>
   (migrateSingleWpPost rem orc cfg g lang depth batchId post mapping w =
        Some (Success pid n, w') \<longrightarrow>
      migrateSingleWpPost rem' orc' cfg' g' lang' depth' batchId' post mapping' w' =
        Some (Skipped pid, w'))"
proof (intro conjI impI)
  assume "isAlreadyMigrated ''post'' (string_of (obj_get post ''ID'')) (migrationDb w)"
  then show "migrateSingleWpPost rem orc cfg g lang depth batchId post mapping w =
        Some (Skipped (obj_get post ''ID''), w)"
    unfolding migrateSingleWpPost_def Let_def by (rule if_P)
next
  assume "migrateSingleWpPost rem orc cfg g lang depth batchId post mapping w =
        Some (Success pid n, w')"
  then have p: "pid = obj_get post ''ID''"
    and m: "isAlreadyMigrated ''post'' (string_of (obj_get post ''ID'')) (migrationDb w')"
    using migrate_success_tracked by blast+
  show "migrateSingleWpPost rem' orc' cfg' g' lang' depth' batchId' post mapping' w' =
        Some (Skipped pid, w')"
    unfolding migrateSingleWpPost_def Let_def p using m by (rule if_P)
qed

theorem migrated_post_skipped_witness:
  "isAlreadyMigrated ''post'' ''7'' (migrationDb ex_world_migrated) \<and>
   migrateSingleWpPost remote_ok db_ok ex_config ex_glyphs ex_lang 3 1 ex_post ex_mapping
       ex_world_migrated = Some (Skipped (Some ''7''), ex_world_migrated) \<and>
   map_option fst (migrateSingleWpPost remote_ok db_ok ex_config ex_glyphs ex_lang 3 1 ex_post
       ex_mapping ex_world) = Some (Success (Some ''7'') 1) \<and>
   migrateSingleWpPost remote_down db_ok ex_config ex_glyphs ex_lang 0 2 ex_post ex_mapping
       (snd (the (migrateSingleWpPost remote_ok db_ok ex_config ex_glyphs ex_lang 3 1 ex_post
          ex_mapping ex_world))) =
     Some (Skipped (Some ''7''),
       snd (the (migrateSingleWpPost remote_ok db_ok ex_config ex_glyphs ex_lang 3 1 ex_post
          ex_mapping ex_world)))"
proof -
  let ?run = "migrateSingleWpPost remote_ok db_ok ex_config ex_glyphs ex_lang 3 1 ex_post
       ex_mapping ex_world"
  have id: "obj_get ex_post ''ID'' = Some ''7''" by code_simp
  have tracked: "isAlreadyMigrated ''post'' ''7'' (migrationDb ex_world_migrated)" by code_simp
  have first: "map_option fst ?run = Some (Success (Some ''7'') 1)" by code_simp
  then have run: "?run = Some (Success (Some ''7'') 1, snd (the ?run))"
    by (cases ?run) auto
  have skip: "migrateSingleWpPost remote_ok db_ok ex_config ex_glyphs ex_lang 3 1 ex_post
       ex_mapping ex_world_migrated = Some (Skipped (Some ''7''), ex_world_migrated)"
    using migrated_post_skipped [where post = ex_post and w = ex_world_migrated
        and rem = remote_ok and orc = db_ok and cfg = ex_config and g = ex_glyphs
        and lang = ex_lang and depth = 3 and batchId = 1 and mapping = ex_mapping] tracked
    by (simp add: id string_of_def)
  have again: "migrateSingleWpPost remote_down db_ok ex_config ex_glyphs ex_lang 0 2 ex_post
       ex_mapping (snd (the ?run)) = Some (Skipped (Some ''7''), snd (the ?run))"
    using migrated_post_skipped [where post = ex_post and w = ex_world
        and rem = remote_ok and orc = db_ok and cfg = ex_config and g = ex_glyphs
        and lang = ex_lang and depth = 3 and batchId = 1 and mapping = ex_mapping
        and pid = "Some ''7''" and n = 1 and w' = "snd (the ?run)"
        and rem' = remote_down and orc' = db_ok and cfg' = ex_config and g' = ex_glyphs
        and lang' = ex_lang and depth' = 0 and batchId' = 2 and mapping' = ex_mapping] run
    by blast
  show ?thesis
    using tracked skip first again by blast
qed

section \<open>Properties of the migration run\<close>

lemma run_needs_folder:
  "runMigration orc serial today (cfg\<lparr>DIRECTUS_FOLDER_ID := None\<rparr>) dir later migrationLimit w =
     (Exited 1, w)"
  by (simp add: runMigration_def str_truthy_def)

text \<open>
  C5. Without a media folder the run exits before the batch is created and changes
  nothing. Without the template and author identifiers it does not: started with the
  token and the folder only, on a data directory with one tag and one category and empty
  databases, the run creates batch 1, writes the tag row and a tag translation, tracks
  both as migrated with success, and only then fails in \<open>migrateCategories\<close>, which marks
  the batch as failed. The later steps are not reached, whatever they are.
\<close>

theorem run_without_templates_migrates_tags:
  "runMigration orc serial today (cfg\<lparr>DIRECTUS_FOLDER_ID := None\<rparr>) dir later migrationLimit w =
     (Exited 1, w) \<and>
   fst (runMigration db_ok ex_serial ex_today ex_config_bare ex_dir later 0 ex_world_empty) =
     Aborted 1 (''POST_TEMPLATE_ID and COLLECTION_TEMPLATE_ID must be provided via '' @
                ''--post-template and --collection-template flags'') \<and>
   db (snd (runMigration db_ok ex_serial ex_today ex_config_bare ex_dir later 0 ex_world_empty))
      ''tag'' = [[(''id'', CInt 5)]] \<and>
   map (\<lambda>r. (table_name r, old_id r, status r))
     (data (migrationDb
        (snd (runMigration db_ok ex_serial ex_today ex_config_bare ex_dir later 0 ex_world_empty)))) =
     [(''tag'', ''5'', ''success''), (''tag_translations'', ''5_vi-VN'', ''success'')] \<and>
   map (\<lambda>b. (mb_id b, mb_status b))
     (batches (migrationDb
        (snd (runMigration db_ok ex_serial ex_today ex_config_bare ex_dir later 0 ex_world_empty)))) =
     [(1, ''failed'')]"
proof -
  let ?run = "runMigration db_ok ex_serial ex_today ex_config_bare ex_dir later 0 ex_world_empty"
  have a: "fst ?run =
     Aborted 1 (''POST_TEMPLATE_ID and COLLECTION_TEMPLATE_ID must be provided via '' @
                ''--post-template and --collection-template flags'')"
    by code_simp
  have b: "db (snd ?run) ''tag'' = [[(''id'', CInt 5)]]"
    by code_simp
  have c: "map (\<lambda>r. (table_name r, old_id r, status r)) (data (migrationDb (snd ?run))) =
     [(''tag'', ''5'', ''success''), (''tag_translations'', ''5_vi-VN'', ''success'')]"
    by code_simp
  have d: "map (\<lambda>b. (mb_id b, mb_status b)) (batches (migrationDb (snd ?run))) = [(1, ''failed'')]"
    by code_simp
  show ?thesis
    using run_needs_folder [of orc serial today cfg dir later migrationLimit w] a b c d
    by blast
qed

end
